theory Spec2Isabelle
  imports Main "HOL-Library.Sublist"
begin

section \<open>Strings\<close>

text \<open>
  Module identifiers, platform names and property names are JavaScript strings; they are
  modelled as \<open>string\<close>. The helpers below are the \<open>String.prototype\<close> methods the
  sources call. Letter case is handled for the ASCII letters, which is all the literal
  patterns of the sources contain.
\<close>

definition toLowerChar :: "char \<Rightarrow> char" where
  "toLowerChar c =
     (let n = (of_char c :: nat) in if 65 \<le> n \<and> n \<le> 90 then char_of (n + 32) else c)"

definition toUpperChar :: "char \<Rightarrow> char" where
  "toUpperChar c =
     (let n = (of_char c :: nat) in if 97 \<le> n \<and> n \<le> 122 then char_of (n - 32) else c)"

definition toLowerCase :: "string \<Rightarrow> string" where
  "toLowerCase s = map toLowerChar s"

definition startsWith :: "string \<Rightarrow> string \<Rightarrow> bool" where
  "startsWith s p = prefix p s"

definition endsWith :: "string \<Rightarrow> string \<Rightarrow> bool" where
  "endsWith s p = prefix (rev p) (rev s)"

fun str_includes :: "string \<Rightarrow> string \<Rightarrow> bool" where
  "str_includes [] sub = (sub = [])"
| "str_includes (c # cs) sub = (prefix sub (c # cs) \<or> str_includes cs sub)"

text \<open>\<open>/lit/i.test(s)\<close> and \<open>/^lit/i.test(s)\<close> for a literal \<open>lit\<close> written in lower case.\<close>

definition test_i :: "string \<Rightarrow> string \<Rightarrow> bool" where
  "test_i lit s = str_includes (toLowerCase s) lit"

definition test_prefix_i :: "string \<Rightarrow> string \<Rightarrow> bool" where
  "test_prefix_i lit s = startsWith (toLowerCase s) lit"

section \<open>Identifier classifier (improved-pattern-detector)\<close>

definition WEB_COMPATIBLE_LIBRARIES :: "string list" where
  "WEB_COMPATIBLE_LIBRARIES =
    [''react-navigation'', ''@react-navigation/native'', ''@react-navigation/stack'',
     ''@react-navigation/bottom-tabs'', ''@react-navigation/drawer'', ''react-native-paper'',
     ''react-native-elements'', ''react-native-vector-icons'', ''react-native-svg'',
     ''react-native-reanimated'', ''react-native-gesture-handler'',
     ''react-native-linear-gradient'', ''react-native-webview'', ''react-native-modal'',
     ''react-native-super-grid'', ''react-native-tab-view'', ''react-native-pager-view'',
     ''react-native-safe-area-context'', ''react-native-screens'', ''react-hook-form'',
     ''@hookform/resolvers'', ''react-native-web'', ''expo-web'', ''@expo/web'']"

text \<open>Every entry of \<open>NATIVE_ONLY_PATTERNS\<close> is a case-insensitive literal regular expression.\<close>

definition NATIVE_ONLY_PATTERNS :: "string list" where
  "NATIVE_ONLY_PATTERNS =
    [''camera'', ''biometric'', ''fingerprint'', ''face-id'', ''touch-id'', ''bluetooth'',
     ''nfc'', ''sensor'', ''haptic'', ''vibrat'',
     ''background-job'', ''push-notification'', ''contacts'', ''calendar'', ''keychain'',
     ''secure-store'', ''file-system'', ''document-picker'', ''image-picker'', ''image-crop'',
     ''media-library'', ''photo'', ''video'', ''sound'', ''audio'', ''speech'', ''voice'',
     ''ml-kit'', ''vision'', ''face-detection'', ''text-recognition'', ''barcode'', ''qrcode'',
     ''device-info'', ''device-id'', ''unique-id'', ''battery'', ''network-info'', ''cellular'',
     ''wifi'',
     ''share'', ''intent'', ''app-state'', ''permissions'', ''location'', ''geolocation'',
     ''maps'', ''navigation'', ''orientation'', ''status-bar'', ''splash-screen'',
     ''async-storage'', ''sqlite'', ''realm'', ''mmkv'']"

definition hasNativeOnlyPatterns :: "string \<Rightarrow> bool" where
  "hasNativeOnlyPatterns moduleName = list_ex (\<lambda>p. test_i p moduleName) NATIVE_ONLY_PATTERNS"

text \<open>
  The parsed \<open>package.json\<close> of a package, as far as \<open>checkPackageJsonPlatformSupport\<close>
  reads it. A field that is absent is \<open>None\<close>; \<open>browser\<close> and the \<open>react-native-web\<close>
  field are only tested for truthiness. The peer dependencies are the names whose version
  string is non-empty.
\<close>

record package_json =
  pkg_keywords :: "string list option"
  browser :: bool
  react_native_web :: bool
  files :: "string list option"
  peerDependencies :: "string list option"

text \<open>
  The file system the classifier probes: \<open>readPackageJson\<close> is \<open>require.resolve\<close> of
  \<open><module>/package.json\<close> followed by reading and parsing it, \<open>readModuleDir\<close> is
  \<open>require.resolve\<close> of the module followed by listing the directory of its entry file.
  \<open>None\<close> is any failure of these steps, which the source catches.
\<close>

record filesystem =
  readPackageJson :: "string \<Rightarrow> package_json option"
  readModuleDir :: "string \<Rightarrow> string list option"

datatype platform_support = WebSupported | NativeOnly | LikelyNativeOnly | Unknown

definition keywords_include :: "package_json \<Rightarrow> string \<Rightarrow> bool" where
  "keywords_include pj k = (case pkg_keywords pj of None \<Rightarrow> False | Some ks \<Rightarrow> k \<in> set ks)"

definition checkPackageJsonPlatformSupport :: "filesystem \<Rightarrow> string \<Rightarrow> platform_support" where
  "checkPackageJsonPlatformSupport fs moduleName =
     (case readPackageJson fs moduleName of
        None \<Rightarrow> Unknown
      | Some pj \<Rightarrow>
          if keywords_include pj ''web'' then WebSupported
          else if keywords_include pj ''react-native-web'' then WebSupported
          else if browser pj \<or> react_native_web pj then WebSupported
          else if (case files pj of None \<Rightarrow> False
                   | Some fl \<Rightarrow> list_ex (\<lambda>f. str_includes f ''.web.'' \<or> str_includes f ''/web/''
                                            \<or> str_includes f ''browser'') fl)
               then WebSupported
          else if keywords_include pj ''native-only'' then NativeOnly
          else if (case peerDependencies pj of None \<Rightarrow> False
                   | Some ds \<Rightarrow> ''react-native'' \<in> set ds \<and> ''react-native-web'' \<notin> set ds)
               then LikelyNativeOnly
          else Unknown)"

definition hasWebSpecificFiles :: "filesystem \<Rightarrow> string \<Rightarrow> bool" where
  "hasWebSpecificFiles fs moduleName =
     (case readModuleDir fs moduleName of
        None \<Rightarrow> False
      | Some fl \<Rightarrow> list_ex (\<lambda>f. str_includes f ''.web.'' \<or> str_includes f ''.browser.''
                               \<or> str_includes f ''.dom.'') fl)"

definition isTrulyNativeModule :: "filesystem \<Rightarrow> string \<Rightarrow> bool" where
  "isTrulyNativeModule fs moduleName =
     (if moduleName \<in> set WEB_COMPATIBLE_LIBRARIES then False
      else if test_prefix_i ''react-native-web'' moduleName then False
      else if test_prefix_i ''expo-web'' moduleName then False
      else if \<not> str_includes moduleName ''react-native'' \<and> \<not> str_includes moduleName ''expo'' then False
      else let platformSupport = checkPackageJsonPlatformSupport fs moduleName in
        if platformSupport = WebSupported then False
        else if platformSupport = NativeOnly then True
        else if hasWebSpecificFiles fs moduleName then False
        else if hasNativeOnlyPatterns moduleName then True
        else if startsWith moduleName ''react-native-'' \<or> startsWith moduleName ''expo-'' then True
        else False)"

record detection =
  isNative :: bool
  confidence :: string
  reason :: string

definition getNativeDetectionConfidence :: "filesystem \<Rightarrow> string \<Rightarrow> detection" where
  "getNativeDetectionConfidence fs moduleName =
     (if moduleName \<in> set WEB_COMPATIBLE_LIBRARIES
      then \<lparr>isNative = False, confidence = ''high'', reason = ''explicitly web-compatible''\<rparr>
      else let platformSupport = checkPackageJsonPlatformSupport fs moduleName in
        if platformSupport = WebSupported
        then \<lparr>isNative = False, confidence = ''high'',
              reason = ''package.json indicates web support''\<rparr>
        else if platformSupport = NativeOnly
        then \<lparr>isNative = True, confidence = ''high'',
              reason = ''package.json indicates native-only''\<rparr>
        else if hasNativeOnlyPatterns moduleName
        then \<lparr>isNative = True, confidence = ''medium'',
              reason = ''module name suggests native-only functionality''\<rparr>
        else if hasWebSpecificFiles fs moduleName
        then \<lparr>isNative = False, confidence = ''medium'', reason = ''web-specific files found''\<rparr>
        else if startsWith moduleName ''react-native-'' \<or> startsWith moduleName ''expo-''
        then \<lparr>isNative = True, confidence = ''low'',
              reason = ''react-native/expo prefix (conservative)''\<rparr>
        else \<lparr>isNative = False, confidence = ''low'', reason = ''no native indicators found''\<rparr>)"

text \<open>A project in which no package can be located on disk.\<close>

definition no_files :: filesystem where
  "no_files = \<lparr>readPackageJson = (\<lambda>_. None), readModuleDir = (\<lambda>_. None)\<rparr>"

section \<open>Legacy pattern detector (pattern-detector)\<close>

text \<open>
  The regular expressions of \<open>MOBILE_PATTERNS\<close> and \<open>WEB_COMPATIBLE_PATTERNS\<close> have four
  shapes: \<open>/^p/\<close>, \<open>/^p(?!q)/\<close>, \<open>/p/\<close> and \<open>/^p$/\<close>, each with literal \<open>p\<close> and \<open>q\<close>.
\<close>

datatype regexp = Prefix string | PrefixNotFollowedBy string string | Contains string
  | Exact string

fun regexp_test :: "regexp \<Rightarrow> string \<Rightarrow> bool" where
  "regexp_test (Prefix p) s = startsWith s p"
| "regexp_test (PrefixNotFollowedBy p q) s =
     (startsWith s p \<and> \<not> startsWith (drop (length p) s) q)"
| "regexp_test (Contains p) s = str_includes s p"
| "regexp_test (Exact p) s = (s = p)"

definition MOBILE_PATTERNS :: "regexp list" where
  "MOBILE_PATTERNS =
    [PrefixNotFollowedBy ''react-native-'' ''web'', PrefixNotFollowedBy ''expo-'' ''web'',
     Prefix ''@react-native-'', PrefixNotFollowedBy ''@expo/'' ''web'',
     Contains ''native-base'', Contains ''react-navigation'',
     Prefix ''@react-navigation/'', Exact ''react-native'',
     Prefix ''@react-native-community/'', Prefix ''react-native-reanimated'',
     Prefix ''react-native-gesture-handler'', Prefix ''react-native-svg'',
     Prefix ''react-native-vector-icons'', Prefix ''react-native-maps'',
     Prefix ''react-native-camera'', Prefix ''react-native-image-picker'',
     Prefix ''react-native-permissions'', Prefix ''react-native-share'',
     Prefix ''react-native-device-info'', Prefix ''react-native-keychain'',
     Prefix ''react-native-biometrics'', Prefix ''react-native-sensors'',
     Prefix ''react-native-bluetooth'', Prefix ''react-native-nfc'',
     Prefix ''react-native-haptic'', Prefix ''react-native-sound'',
     Prefix ''react-native-video'', Prefix ''react-native-webview'',
     Prefix ''react-native-sqlite'', Prefix ''react-native-fs'',
     Prefix ''react-native-contacts'', Prefix ''react-native-calendar'',
     Prefix ''react-native-push-notification'', Prefix ''react-native-linear-gradient'',
     Prefix ''react-native-background'', Prefix ''react-native-geolocation'',
     Prefix ''react-native-orientation'', Prefix ''react-native-splash-screen'',
     Prefix ''react-native-status-bar'', Prefix ''react-native-picker'',
     Prefix ''react-native-modal'', Prefix ''react-native-actionsheet'',
     Prefix ''react-native-swiper'', Prefix ''react-native-tab-view'',
     Prefix ''react-native-paper'', Prefix ''react-native-elements'',
     Prefix ''react-native-ui-lib'', Prefix ''react-native-super-grid'',
     Prefix ''react-native-fast-image'', Prefix ''react-native-image-crop-picker'',
     Prefix ''react-native-document-picker'', Prefix ''react-native-file-picker'',
     Prefix ''react-native-qrcode'', Prefix ''react-native-barcode'',
     Prefix ''react-native-vision-camera'', Prefix ''react-native-ml-kit'',
     Prefix ''react-native-face-detection'', Prefix ''react-native-text-recognition'']"

definition WEB_COMPATIBLE_PATTERNS :: "regexp list" where
  "WEB_COMPATIBLE_PATTERNS =
    [Prefix ''react-native-web'', Prefix ''expo-web'', Prefix ''@expo/web'',
     Prefix ''react-native-web-'']"

definition isMobileSpecificModule :: "string \<Rightarrow> bool" where
  "isMobileSpecificModule moduleName =
     (if list_ex (\<lambda>p. regexp_test p moduleName) WEB_COMPATIBLE_PATTERNS then False
      else list_ex (\<lambda>p. regexp_test p moduleName) MOBILE_PATTERNS)"


section \<open>Ordinary objects\<close>

text \<open>
  The tables of the sources (mapping tiers, fallback tables, configuration objects) are
  ordinary JavaScript objects. A read \<open>table[key]\<close> and the test \<open>key in table\<close> find the
  own entries of the object and, for the twelve names below, what every ordinary object
  inherits from \<open>Object.prototype\<close>: a built-in function, and under \<open>__proto__\<close> the
  prototype object itself. Each of these inherited values is truthy.
\<close>

definition Object_prototype_keys :: "string list" where
  "Object_prototype_keys =
    [''constructor'', ''__defineGetter__'', ''__defineSetter__'', ''hasOwnProperty'',
     ''__lookupGetter__'', ''__lookupSetter__'', ''isPrototypeOf'', ''propertyIsEnumerable'',
     ''toString'', ''valueOf'', ''__proto__'', ''toLocaleString'']"

section \<open>Bundler resolution layer (resolver, improved-resolver)\<close>

text \<open>A thrown JavaScript \<open>Error\<close> or \<open>TypeError\<close>, with its message.\<close>

datatype error = Error string | TypeError string

text \<open>
  An entry of \<open>excludePatterns\<close> or \<open>forceIncludePatterns\<close>: a string, a \<open>RegExp\<close>
  (given by its \<open>test\<close>), or a value of any other type. A \<open>RegExp\<close> is one without the
  \<open>g\<close> and \<open>y\<close> flags, whose \<open>test\<close> is a function of the string; with one of these
  flags \<open>test\<close> also depends on where the previous match ended, which is not modelled.
\<close>

datatype pattern = PatString string | PatRegExp "string \<Rightarrow> bool" | PatOther

fun pattern_matches :: "string \<Rightarrow> pattern \<Rightarrow> bool" where
  "pattern_matches moduleName (PatString p) = (moduleName = p)"
| "pattern_matches moduleName (PatRegExp t) = t moduleName"
| "pattern_matches moduleName PatOther = False"

text \<open>
  The options object of both resolvers. \<open>createWebCompatResolver\<close> reads the first five
  fields only. \<open>enableLogging\<close> guards calls of the logger and nothing else, so it is left out.
  \<open>moduleMap\<close> and \<open>overrides\<close> are given by their own entries, which hold strings
  (\<open>Record<string, string>\<close> in \<open>index.d.ts\<close>).
\<close>

record options =
  moduleMap :: "string \<rightharpoonup> string"
  overrides :: "string \<rightharpoonup> string"
  fallbackStrategy :: string
  webPlatforms :: "string list"
  generateMocks :: bool
  confidenceThreshold :: string
  excludePatterns :: "pattern list"
  forceIncludePatterns :: "pattern list"

definition default_options :: options where
  "default_options =
     \<lparr>moduleMap = Map.empty, overrides = Map.empty, fallbackStrategy = ''graceful'',
      webPlatforms = [''web'', ''browser''], generateMocks = True,
      confidenceThreshold = ''medium'', excludePatterns = [], forceIncludePatterns = []\<rparr>"

text \<open>
  What a resolver hands to \<open>baseResolver\<close> as the module name: an identifier, or, when the
  entry it read from a tier is one that the tier inherits from \<open>Object.prototype\<close>, that
  inherited value (\<open>PrototypeMember\<close> with its name).
\<close>

datatype delegated = Name string | PrototypeMember string

text \<open>
  What the resolvers are given from outside: the bundler's own resolver \<open>baseResolver\<close>
  (context and platform are passed through unchanged, so it is a function of the module name
  it is handed, and it returns a module descriptor or throws), the mock generator of
  \<open>utils/mock-generator\<close> (it returns the path of the generated mock or throws), the own
  entries of the table \<open>BUILT_IN_MAPPINGS\<close>, and the file system.
\<close>

record 'r bundler =
  baseResolver :: "delegated \<Rightarrow> error + 'r"
  generateAutoMock :: "string \<Rightarrow> error + string"
  BUILT_IN_MAPPINGS :: "string \<rightharpoonup> string"
  files :: filesystem

text \<open>
  A run of a resolver: what was handed to \<open>baseResolver\<close>, call by call, and what the
  resolver returned or threw.
\<close>

type_synonym 'r run = "delegated list \<times> (error + 'r)"

definition delegate :: "'r bundler \<Rightarrow> delegated \<Rightarrow> 'r run" where
  "delegate b d = ([d], baseResolver b d)"

text \<open>
  \<open>if (table[moduleName]) ... table[moduleName]\<close> for a tier: the value read counts when it
  is truthy. An own entry is a string, truthy unless empty; a name without an own entry
  reads as what the table inherits under that name, if anything.
\<close>

definition lookup_truthy :: "(string \<rightharpoonup> string) \<Rightarrow> string \<Rightarrow> delegated option" where
  "lookup_truthy table moduleName =
     (case table moduleName of
        Some v \<Rightarrow> if v = [] then None else Some (Name v)
      | None \<Rightarrow> if moduleName \<in> set Object_prototype_keys
                then Some (PrototypeMember moduleName) else None)"

definition isWebPlatform :: "string option \<Rightarrow> string list \<Rightarrow> bool" where
  "isWebPlatform platform wps =
     (case platform of None \<Rightarrow> False
      | Some p \<Rightarrow> if p = [] then False else toLowerCase p \<in> set wps)"

definition confidenceLevels :: "string \<rightharpoonup> nat" where
  "confidenceLevels = [''low'' \<mapsto> 1, ''medium'' \<mapsto> 2, ''high'' \<mapsto> 3]"

definition shouldProcessBasedOnConfidence :: "string \<Rightarrow> string \<Rightarrow> bool" where
  "shouldProcessBasedOnConfidence detectionConfidence threshold =
     (case (confidenceLevels detectionConfidence, confidenceLevels threshold) of
        (Some a, Some b) \<Rightarrow> a \<ge> b
      | _ \<Rightarrow> False)"

definition quoted :: "string \<Rightarrow> string" where
  "quoted s = [CHR 0x22] @ s @ [CHR 0x22]"

text \<open>The body of the \<open>try\<close> block of \<open>createImprovedWebCompatResolver\<close>.\<close>

definition improved_try :: "'r bundler \<Rightarrow> options \<Rightarrow> string \<Rightarrow> 'r run" where
  "improved_try b opts moduleName =
     (if list_ex (pattern_matches moduleName) (excludePatterns opts)
      then delegate b (Name moduleName)
      else case lookup_truthy (overrides opts) moduleName of
        Some sub \<Rightarrow> delegate b sub
      | None \<Rightarrow>
     (case lookup_truthy (moduleMap opts) moduleName of
        Some sub \<Rightarrow> delegate b sub
      | None \<Rightarrow>
     (case lookup_truthy (BUILT_IN_MAPPINGS b) moduleName of
        Some sub \<Rightarrow> delegate b sub
      | None \<Rightarrow>
        let isForceIncluded = list_ex (pattern_matches moduleName) (forceIncludePatterns opts);
            detection = getNativeDetectionConfidence (files b) moduleName;
            shouldProcess = (isForceIncluded \<or>
              (isNative detection \<and>
               shouldProcessBasedOnConfidence (confidence detection) (confidenceThreshold opts)))
        in if shouldProcess then
             if generateMocks opts then
               (case generateAutoMock b moduleName of
                  Inl e \<Rightarrow> ([], Inl e)
                | Inr mockPath \<Rightarrow> delegate b (Name mockPath))
             else if fallbackStrategy opts = ''strict'' then
               ([], Inl (Error (''Native module '' @ quoted moduleName
                                 @ '' not available on web platform'')))
             else delegate b (Name moduleName)
           else delegate b (Name moduleName))))"

definition createImprovedWebCompatResolver ::
  "'r bundler \<Rightarrow> options \<Rightarrow> string \<Rightarrow> string option \<Rightarrow> 'r run" where
  "createImprovedWebCompatResolver b opts moduleName platform =
     (if \<not> isWebPlatform platform (webPlatforms opts) then delegate b (Name moduleName)
      else case improved_try b opts moduleName of
        (ds, Inr r) \<Rightarrow> (ds, Inr r)
      | (ds, Inl e) \<Rightarrow>
          if fallbackStrategy opts = ''strict'' then (ds, Inl e)
          else (ds @ [Name moduleName], baseResolver b (Name moduleName)))"

text \<open>The body of the \<open>try\<close> block of \<open>createWebCompatResolver\<close>.\<close>

definition legacy_try :: "'r bundler \<Rightarrow> options \<Rightarrow> string \<Rightarrow> 'r run" where
  "legacy_try b opts moduleName =
     (case lookup_truthy (overrides opts) moduleName of
        Some sub \<Rightarrow> delegate b sub
      | None \<Rightarrow>
     (case lookup_truthy (moduleMap opts) moduleName of
        Some sub \<Rightarrow> delegate b sub
      | None \<Rightarrow>
     (case lookup_truthy (BUILT_IN_MAPPINGS b) moduleName of
        Some sub \<Rightarrow> delegate b sub
      | None \<Rightarrow>
        if isMobileSpecificModule moduleName then
          if generateMocks opts then
            (case generateAutoMock b moduleName of
               Inl e \<Rightarrow> ([], Inl e)
             | Inr mockPath \<Rightarrow> delegate b (Name mockPath))
          else if fallbackStrategy opts = ''graceful'' then
            ([], Inl (Error (''Mobile-specific module '' @ quoted moduleName
                              @ '' not available on web platform'')))
          else delegate b (Name moduleName)
        else delegate b (Name moduleName))))"

definition createWebCompatResolver ::
  "'r bundler \<Rightarrow> options \<Rightarrow> string \<Rightarrow> string option \<Rightarrow> 'r run" where
  "createWebCompatResolver b opts moduleName platform =
     (if \<not> isWebPlatform platform (webPlatforms opts) then delegate b (Name moduleName)
      else case legacy_try b opts moduleName of
        (ds, Inr r) \<Rightarrow> (ds, Inr r)
      | (ds, Inl e) \<Rightarrow>
          if fallbackStrategy opts = ''graceful'' then (ds, Inl e)
          else (ds @ [Name moduleName], baseResolver b (Name moduleName)))"

subsection \<open>The mapping tiers, in the words of the specification\<close>

text \<open>
  A tier contains an identifier when it has an entry of its own for it with a non-empty
  substitute. The substitute the specification names for an identifier is that of the first
  tier, in the order override, user map, built-in, that contains it.
\<close>

definition tier_entry :: "(string \<rightharpoonup> string) \<Rightarrow> string \<Rightarrow> string option" where
  "tier_entry table m = (case table m of Some s \<Rightarrow> if s = [] then None else Some s | None \<Rightarrow> None)"

definition spec_substitute :: "'r bundler \<Rightarrow> options \<Rightarrow> string \<Rightarrow> string option" where
  "spec_substitute b opts m =
     (case tier_entry (overrides opts) m of
        Some s \<Rightarrow> Some s
      | None \<Rightarrow>
        (case tier_entry (moduleMap opts) m of
           Some s \<Rightarrow> Some s
         | None \<Rightarrow> tier_entry (BUILT_IN_MAPPINGS b) m))"

subsection \<open>Example projects\<close>

text \<open>
  A bundler whose resolver finds every module except \<open>sub-a\<close> and rejects a module name
  that is not a string, with two built-in mappings (the second is an entry of the
  repository's table) and no package on disk.
\<close>

definition example_bundler :: "string bundler" where
  "example_bundler =
     \<lparr>baseResolver = (\<lambda>d. case d of
          Name name \<Rightarrow> if name = ''sub-a''
                       then Inl (Error ''Unable to resolve module sub-a'')
                       else Inr (''/node_modules/'' @ name)
        | PrototypeMember k \<Rightarrow> Inl (TypeError ''The module name must be a string'')),
      generateAutoMock = (\<lambda>name. Inr (''/mocks/'' @ name)),
      BUILT_IN_MAPPINGS = [''pkg-b'' \<mapsto> ''sub-b'',
                           ''expo-camera'' \<mapsto> ''metro-web-compat/mocks/camera''],
      files = no_files\<rparr>"

definition override_options :: "string \<Rightarrow> options" where
  "override_options strategy =
     default_options\<lparr>overrides := [''pkg-a'' \<mapsto> ''sub-a''], fallbackStrategy := strategy\<rparr>"

definition no_mock_options :: "string \<Rightarrow> options" where
  "no_mock_options strategy =
     default_options\<lparr>generateMocks := False, fallbackStrategy := strategy\<rparr>"

definition excluding_options :: options where
  "excluding_options =
     default_options\<lparr>overrides := [''pkg-b'' \<mapsto> ''sub-o''],
                      excludePatterns := [PatString ''pkg-b'']\<rparr>"

definition three_tier_options :: options where
  "three_tier_options =
     default_options\<lparr>overrides := [''pkg-b'' \<mapsto> ''sub-o''],
                      moduleMap := [''pkg-b'' \<mapsto> ''sub-u'']\<rparr>"

definition user_map_options :: "string \<Rightarrow> options" where
  "user_map_options strategy =
     default_options\<lparr>moduleMap := [''constructor'' \<mapsto> ''sub-c''],
                      fallbackStrategy := strategy\<rparr>"

section \<open>Runtime values\<close>

text \<open>
  The values the runtime interception layer handles. A function of a wrapped module or of
  the application is \<open>JFun n\<close>. \<open>JProto k\<close> is what an ordinary object inherits under the
  name \<open>k\<close> from \<open>Object.prototype\<close>: a built-in function, and for \<open>__proto__\<close> the object
  \<open>Object.prototype\<close> itself. \<open>JBuiltIn m\<close> is the function that the built-in fallback
  table of the \<open>FallbackManager\<close> holds for the method \<open>m\<close>. A deferred result is
  \<open>JPromise\<close> with the outcome it settles to: fulfilled with a value (\<open>Inr\<close>) or rejected with
  a value (\<open>Inl\<close>). A plain object \<open>JObject\<close> lists its own properties, which are data
  properties with string keys; it inherits from \<open>Object.prototype\<close>. \<open>JErr\<close> is an \<open>Error\<close>
  object. \<open>JElement\<close> is the element that \<open>React.createElement(type, props, children)\<close>
  builds.
\<close>

datatype jsval =
    JUndefined
  | JNull
  | JBool bool
  | JNum int
  | JStr string
  | JErr error
  | JArray "jsval list"
  | JObject "(string \<times> jsval) list"
  | JFun nat
  | JProto string
  | JBuiltIn string
  | JPromise "jsval + jsval"
  | JElement jsval jsval jsval

text \<open>
  What calling a function does is given from outside, by an interpretation \<open>funs\<close> from the
  function and the arguments to the value returned (\<open>Inr\<close>) or the value thrown (\<open>Inl\<close>):
  any value can be thrown.
\<close>

type_synonym funs = "jsval \<Rightarrow> jsval list \<Rightarrow> jsval + jsval"

fun truthy :: "jsval \<Rightarrow> bool" where
  "truthy JUndefined = False"
| "truthy JNull = False"
| "truthy (JBool b) = b"
| "truthy (JNum n) = (n \<noteq> 0)"
| "truthy (JStr s) = (s \<noteq> [])"
| "truthy _ = True"

text \<open>\<open>typeof v === 'function'\<close>.\<close>

fun is_function :: "jsval \<Rightarrow> bool" where
  "is_function (JFun n) = True"
| "is_function (JBuiltIn m) = True"
| "is_function (JProto k) = (k \<noteq> ''__proto__'')"
| "is_function _ = False"

text \<open>\<open>typeof v === 'object' && v !== null\<close>.\<close>

fun is_object :: "jsval \<Rightarrow> bool" where
  "is_object (JErr e) = True"
| "is_object (JArray vs) = True"
| "is_object (JObject ps) = True"
| "is_object (JProto k) = (k = ''__proto__'')"
| "is_object (JPromise st) = True"
| "is_object (JElement t p c) = True"
| "is_object _ = False"

text \<open>
  \<open>table[k]\<close> for an ordinary object given by its own entries: the own entry, or else what
  the object inherits under that name, or else \<open>undefined\<close>.
\<close>

definition own_or_inherited :: "(string \<rightharpoonup> jsval) \<Rightarrow> string \<Rightarrow> jsval" where
  "own_or_inherited table k =
     (case table k of
        Some v \<Rightarrow> v
      | None \<Rightarrow> if k \<in> set Object_prototype_keys then JProto k else JUndefined)"

text \<open>
  \<open>o[k]\<close> for a string key \<open>k\<close>, where \<open>o\<close> is a configuration object, a props object or a
  wrapped module, and not \<open>null\<close>. The properties of plain objects and of
  \<open>Object.prototype\<close> (whose own \<open>__proto__\<close> reads as \<open>null\<close>) are modelled; a read on any
  other value yields \<open>undefined\<close>: the properties of functions, arrays, errors, promises,
  elements and primitive values are not modelled.
\<close>

fun field :: "jsval \<Rightarrow> string \<Rightarrow> jsval" where
  "field (JObject ps) k = own_or_inherited (map_of ps) k"
| "field (JProto p) k =
     (if p = ''__proto__'' \<and> k \<in> set Object_prototype_keys
      then (if k = ''__proto__'' then JNull else JProto k)
      else JUndefined)"
| "field _ k = JUndefined"

text \<open>\<open>k in o\<close> for a string key, with the same restriction.\<close>

fun has_property :: "jsval \<Rightarrow> string \<Rightarrow> bool" where
  "has_property (JObject ps) k =
     (case map_of ps k of Some v \<Rightarrow> True | None \<Rightarrow> k \<in> set Object_prototype_keys)"
| "has_property (JProto p) k = (p = ''__proto__'' \<and> k \<in> set Object_prototype_keys)"
| "has_property _ k = False"

text \<open>\<open>a || b\<close>.\<close>

definition js_or :: "jsval \<Rightarrow> jsval \<Rightarrow> jsval" where
  "js_or a b = (if truthy a then a else b)"


text \<open>
  A call \<open>f(...args)\<close>. Three functions of the built-in fallback table do not look at the
  browser: \<open>takePicture\<close> returns a promise rejected with an error, \<open>getDeviceId\<close> and
  \<open>getSystemVersion\<close> return resolved promises. The other functions of that table call
  \<open>navigator\<close> and \<open>window\<close>; what they do is given by \<open>funs\<close>, like what the functions
  inherited from \<open>Object.prototype\<close> do.
\<close>

definition call_function :: "funs \<Rightarrow> jsval \<Rightarrow> jsval list \<Rightarrow> jsval + jsval" where
  "call_function funs f args =
     (if f = JBuiltIn ''takePicture''
      then Inr (JPromise (Inl (JErr (Error ''Camera not supported on web''))))
      else if f = JBuiltIn ''getDeviceId'' then Inr (JPromise (Inr (JStr ''web-device'')))
      else if f = JBuiltIn ''getSystemVersion'' then Inr (JPromise (Inr (JStr ''web'')))
      else if is_function f then funs f args
      else Inl (JErr (TypeError ''not a function'')))"

text \<open>
  \<open>error.message\<close>, which the sources evaluate for their log lines: reading a property of
  \<open>null\<close> or \<open>undefined\<close> throws a \<open>TypeError\<close>, and \<open>message_unreadable\<close> gives it.
\<close>

definition message_unreadable :: "jsval \<Rightarrow> error option" where
  "message_unreadable v =
     (if v = JNull
      then Some (TypeError ''Cannot read properties of null (reading 'message')'')
      else if v = JUndefined
      then Some (TypeError ''Cannot read properties of undefined (reading 'message')'')
      else None)"

section \<open>Fallback manager (fallback-manager)\<close>

text \<open>
  The state of a \<open>FallbackManager\<close>: the fields of \<open>this.config\<close>, and
  \<open>this.builtInFallbacks\<close>. \<open>customFallbacks\<close> is an ordinary object, given by its own
  entries; \<open>builtInFallbacks\<close> is an ordinary object whose own entries are ordinary objects,
  keyed by module name and then by method name.
\<close>

record manager =
  returnValue :: jsval
  throwError :: jsval
  logMessage :: jsval
  customFallbacks :: "string \<rightharpoonup> jsval"
  builtInFallbacks :: "string \<rightharpoonup> (string \<rightharpoonup> jsval)"

text \<open>The table that the constructor installs as \<open>this.builtInFallbacks\<close>.\<close>

definition initializeBuiltInFallbacks :: "string \<rightharpoonup> (string \<rightharpoonup> jsval)" where
  "initializeBuiltInFallbacks =
     [''react-native-camera'' \<mapsto> [''takePicture'' \<mapsto> JBuiltIn ''takePicture''],
      ''expo-location'' \<mapsto> [''getCurrentPositionAsync'' \<mapsto> JBuiltIn ''getCurrentPositionAsync''],
      ''expo-haptics'' \<mapsto> [''impactAsync'' \<mapsto> JBuiltIn ''impactAsync''],
      ''react-native-device-info'' \<mapsto>
        [''getDeviceId'' \<mapsto> JBuiltIn ''getDeviceId'',
         ''getSystemVersion'' \<mapsto> JBuiltIn ''getSystemVersion''],
      ''react-native-share'' \<mapsto> [''open'' \<mapsto> JBuiltIn ''open''],
      ''@react-native-clipboard/clipboard'' \<mapsto>
        [''getString'' \<mapsto> JBuiltIn ''getString'', ''setString'' \<mapsto> JBuiltIn ''setString''],
      ''@react-native-community/netinfo'' \<mapsto>
        [''fetch'' \<mapsto> JBuiltIn ''fetch'',
         ''addEventListener'' \<mapsto> JBuiltIn ''addEventListener'',
         ''useNetInfo'' \<mapsto> JBuiltIn ''useNetInfo''],
      ''@react-native-community/netinfo.NetInfoStateType'' \<mapsto>
        [''none'' \<mapsto> JStr ''none'', ''unknown'' \<mapsto> JStr ''unknown'',
         ''cellular'' \<mapsto> JStr ''cellular'', ''wifi'' \<mapsto> JStr ''wifi'',
         ''bluetooth'' \<mapsto> JStr ''bluetooth'', ''ethernet'' \<mapsto> JStr ''ethernet'',
         ''wimax'' \<mapsto> JStr ''wimax'', ''vpn'' \<mapsto> JStr ''vpn'', ''other'' \<mapsto> JStr ''other''],
      ''@react-native-community/netinfo.NetInfoCellularGeneration'' \<mapsto>
        [''2g'' \<mapsto> JStr ''2g'', ''3g'' \<mapsto> JStr ''3g'', ''4g'' \<mapsto> JStr ''4g'',
         ''5g'' \<mapsto> JStr ''5g'']]"

text \<open>\<open>new FallbackManager()\<close>: the manager with the default configuration.\<close>

definition default_manager :: manager where
  "default_manager =
     \<lparr>returnValue = JNull, throwError = JBool False, logMessage = JBool True,
      customFallbacks = Map.empty, builtInFallbacks = initializeBuiltInFallbacks\<rparr>"

definition getCustomFallback :: "manager \<Rightarrow> string \<Rightarrow> jsval \<Rightarrow> jsval" where
  "getCustomFallback mgr fullPath config =
     js_or (field config ''fallback'')
       (js_or (own_or_inherited (customFallbacks mgr) fullPath) JNull)"

text \<open>
  \<open>fullPath.split('.')\<close>: the module name is the part before the first dot, the method
  name all that follows it. \<open>this.builtInFallbacks[moduleName]\<close> is the table of the module,
  or what \<open>this.builtInFallbacks\<close> inherits under that name; the entry read from it counts
  when it is truthy.
\<close>

definition getBuiltInFallback :: "manager \<Rightarrow> string \<Rightarrow> jsval" where
  "getBuiltInFallback mgr fullPath =
     (let moduleName = takeWhile (\<lambda>c. c \<noteq> CHR ''.'') fullPath;
          methodName = drop 1 (dropWhile (\<lambda>c. c \<noteq> CHR ''.'') fullPath);
          entry = (case builtInFallbacks mgr moduleName of
                     Some table \<Rightarrow> own_or_inherited table methodName
                   | None \<Rightarrow> if moduleName \<in> set Object_prototype_keys
                            then field (JProto moduleName) methodName else JUndefined)
      in if truthy entry then entry else JNull)"

definition executeCustomFallback ::
  "funs \<Rightarrow> jsval \<Rightarrow> jsval \<Rightarrow> jsval list \<Rightarrow> string \<Rightarrow> jsval + jsval" where
  "executeCustomFallback funs fallback err args methodName =
     (if is_function fallback
      then call_function funs fallback [err, JArray args, JStr methodName]
      else Inr fallback)"

definition executeBuiltInFallback ::
  "funs \<Rightarrow> jsval \<Rightarrow> jsval \<Rightarrow> jsval list \<Rightarrow> string \<Rightarrow> jsval + jsval" where
  "executeBuiltInFallback funs fallback err args methodName =
     (if is_function fallback then call_function funs fallback args else Inr fallback)"

definition executeDefaultFallback ::
  "manager \<Rightarrow> jsval \<Rightarrow> jsval list \<Rightarrow> string \<Rightarrow> jsval \<Rightarrow> jsval + jsval" where
  "executeDefaultFallback mgr err args methodName config =
     (let shouldThrow = (if field config ''throwError'' \<noteq> JUndefined
                         then field config ''throwError'' else throwError mgr);
          rv = (if field config ''returnValue'' \<noteq> JUndefined
                then field config ''returnValue'' else returnValue mgr)
      in if truthy shouldThrow then Inl err
         else if truthy (logMessage mgr)
         then (case message_unreadable err of Some e \<Rightarrow> Inl (JErr e) | None \<Rightarrow> Inr rv)
         else Inr rv)"

definition handleMethodError ::
  "funs \<Rightarrow> manager \<Rightarrow> string \<Rightarrow> jsval \<Rightarrow> jsval list \<Rightarrow> jsval \<Rightarrow> jsval + jsval" where
  "handleMethodError funs mgr methodName err args config =
     (let customFallback = getCustomFallback mgr methodName config in
      if truthy customFallback
      then executeCustomFallback funs customFallback err args methodName
      else let builtInFallback = getBuiltInFallback mgr methodName in
        if truthy builtInFallback
        then executeBuiltInFallback funs builtInFallback err args methodName
        else executeDefaultFallback mgr err args methodName config)"

definition isMethodName :: "string \<Rightarrow> bool" where
  "isMethodName prop =
     (list_ex (\<lambda>p. startsWith prop p)
        [''get'', ''set'', ''is'', ''has'', ''can''] \<or> endsWith prop ''Async'' \<or>
      list_ex (\<lambda>p. startsWith prop p)
        [''on'', ''add'', ''remove'', ''start'', ''stop'', ''open'', ''close'', ''create'',
         ''delete'', ''update''])"

section \<open>Interception proxies (proxy-wrapper)\<close>

text \<open>
  A property key is a string or a symbol. A template literal \<open>`...${prop}...`\<close> converts
  the key to a string, which throws a \<open>TypeError\<close> for a symbol; the sources build every
  log message and every dotted path that way.
\<close>

datatype propkey = StrKey string | SymKey string

fun template :: "propkey \<Rightarrow> error + string" where
  "template (StrKey s) = Inr s"
| "template (SymKey d) = Inl (TypeError ''Cannot convert a Symbol value to a string'')"

subsection \<open>Method interception (createMethodProxy)\<close>

text \<open>
  \<open>promise.catch(handler)\<close>: a fulfilled promise passes through; a rejected one settles to
  what the handler returns or rejects with what the handler throws. A promise that is
  resolved with a promise adopts its outcome (\<open>adopt\<close>).
\<close>

definition adopt :: "jsval + jsval \<Rightarrow> jsval + jsval" where
  "adopt r = (case r of Inr (JPromise st) \<Rightarrow> st | _ \<Rightarrow> r)"

definition promise_catch ::
  "jsval + jsval \<Rightarrow> (jsval \<Rightarrow> jsval + jsval) \<Rightarrow> jsval + jsval" where
  "promise_catch st handler =
     (case st of
        Inr v \<Rightarrow> Inr v
      | Inl rejection \<Rightarrow> adopt (handler rejection))"

text \<open>
  The body shared by the \<open>catch\<close> block and the rejection handler of \<open>createMethodProxy\<close>:
  the log line reads \<open>error.message\<close>, then the fallback manager decides.
\<close>

definition on_failure ::
  "funs \<Rightarrow> manager \<Rightarrow> string \<Rightarrow> jsval \<Rightarrow> jsval list \<Rightarrow> jsval \<Rightarrow> jsval + jsval" where
  "on_failure funs mgr fullMethodName err args config =
     (case message_unreadable err of
        Some e \<Rightarrow> Inl (JErr e)
      | None \<Rightarrow> handleMethodError funs mgr fullMethodName err args config)"

text \<open>
  A call, with arguments \<open>args\<close>, of the function that
  \<open>createMethodProxy(originalMethod, methodName, moduleName, config, fallbackManager, logger)\<close>
  returns. The result is what the call returns, or the value it throws. The method name is the
  key under which the method was read, and the dotted path is built from it before the \<open>try\<close>
  block is entered. \<open>config\<close> is the configuration of the wrapper, which is not \<open>null\<close>. A
  result with a callable \<open>then\<close> is a promise (\<open>JPromise\<close>); a result that is another object
  with a callable \<open>then\<close> is not modelled, and neither is the adoption of such an object by
  the promise that \<open>catch\<close> returns.
\<close>

definition createMethodProxy ::
  "funs \<Rightarrow> manager \<Rightarrow> jsval \<Rightarrow> propkey \<Rightarrow> string \<Rightarrow> jsval \<Rightarrow> jsval list \<Rightarrow> jsval + jsval" where
  "createMethodProxy funs mgr originalMethod methodName moduleName config args =
     (case template methodName of
        Inl e \<Rightarrow> Inl (JErr e)
      | Inr name \<Rightarrow>
          let fullMethodName = moduleName @ ''.'' @ name in
          case call_function funs originalMethod args of
            Inl err \<Rightarrow> on_failure funs mgr fullMethodName err args config
          | Inr result \<Rightarrow>
              (case result of
                 JPromise st \<Rightarrow>
                   Inr (JPromise (promise_catch st
                          (\<lambda>err. on_failure funs mgr fullMethodName err args config)))
               | _ \<Rightarrow> Inr result))"

text \<open>
  Two versions of \<open>proxy-wrapper.js\<close> are modelled: the one of \<open>runtime-resolver/src\<close>,
  and the extended one of \<open>demo-app/runtime-resolver/src\<close> (the version with
  \<open>createSafePropertyProxy\<close>), which recognises more name patterns. Their \<open>get\<close> traps
  differ for a missing property only. A proxy records which version created it.
\<close>

datatype wrapper_file = RuntimeResolverSrc | DemoAppSrc

text \<open>
  What a property read through a proxy can yield: a value of the wrapped module (\<open>Plain\<close>),
  or one of the proxies and functions the layer creates, named after the function of the
  sources that creates it and carrying that function's arguments. \<open>ContextConsumer\<close> is the
  \<open>Consumer\<close> function of \<open>createReactContextProxy\<close>, \<open>FallbackMethod\<close> the no-op method
  of \<open>getFallbackValue\<close>, and \<open>ConstFunction v\<close> an arrow function \<open>() => v\<close>.
\<close>

datatype layer_value =
    Plain jsval
  | MethodProxy layer_value propkey string jsval
  | ProxyWrapper wrapper_file layer_value string jsval
  | FallbackProxy wrapper_file string
  | FallbackObjectProxy string
  | EventEmitterProxy string string
  | ReactContextProxy string string
  | ContextConsumer string string
  | ReactComponentProxy string string
  | ReactHookProxy string string
  | ListenerProxy string string
  | RemoveListenerProxy string string
  | SafePropertyProxy string string
  | FallbackMethod string jsval
  | ConstFunction jsval

text \<open>\<open>typeof v === 'function'\<close>; a proxy has the type of its target.\<close>

fun lv_is_function :: "layer_value \<Rightarrow> bool" where
  "lv_is_function (Plain v) = is_function v"
| "lv_is_function (MethodProxy f m mn c) = True"
| "lv_is_function (ProxyWrapper w t mn c) = lv_is_function t"
| "lv_is_function (ContextConsumer p mn) = True"
| "lv_is_function (ReactComponentProxy p mn) = True"
| "lv_is_function (ReactHookProxy p mn) = True"
| "lv_is_function (ListenerProxy p mn) = True"
| "lv_is_function (RemoveListenerProxy p mn) = True"
| "lv_is_function (SafePropertyProxy mn p) = True"
| "lv_is_function (FallbackMethod fp v) = True"
| "lv_is_function (ConstFunction v) = True"
| "lv_is_function _ = False"

text \<open>\<open>typeof v === 'object' && v !== null\<close>.\<close>

fun lv_is_object :: "layer_value \<Rightarrow> bool" where
  "lv_is_object (Plain v) = is_object v"
| "lv_is_object (ProxyWrapper w t mn c) = lv_is_object t"
| "lv_is_object (FallbackProxy w mn) = True"
| "lv_is_object (FallbackObjectProxy pp) = True"
| "lv_is_object (EventEmitterProxy p mn) = True"
| "lv_is_object (ReactContextProxy p mn) = True"
| "lv_is_object _ = False"

fun lv_truthy :: "layer_value \<Rightarrow> bool" where
  "lv_truthy (Plain v) = truthy v"
| "lv_truthy _ = True"

definition hasFallback :: "manager \<Rightarrow> string \<Rightarrow> propkey \<Rightarrow> error + bool" where
  "hasFallback mgr moduleName prop =
     (case template prop of
        Inl e \<Rightarrow> Inl e
      | Inr p \<Rightarrow>
          let fullPath = moduleName @ ''.'' @ p
          in Inr (truthy (getCustomFallback mgr fullPath (JObject []))
                  \<or> truthy (getBuiltInFallback mgr fullPath)))"

text \<open>
  \<open>prop in v\<close>. A plain object has its own keys and those it inherits from
  \<open>Object.prototype\<close>, none of which is a symbol. A proxy without a \<open>has\<close> trap answers for
  its target, an empty object literal; the proxies of \<open>createProxyWrapper\<close>,
  \<open>createFallbackProxy\<close> and \<open>createFallbackObjectProxy\<close> have the trap. The properties of
  function objects and of the other built-in objects are not modelled.
\<close>

fun lv_has :: "manager \<Rightarrow> layer_value \<Rightarrow> propkey \<Rightarrow> error + bool" where
  "lv_has mgr (Plain v) (StrKey k) = Inr (has_property v k)"
| "lv_has mgr (ProxyWrapper w obj moduleName config) prop =
     (case lv_has mgr obj prop of
        Inl e \<Rightarrow> Inl e
      | Inr True \<Rightarrow> Inr True
      | Inr False \<Rightarrow> hasFallback mgr moduleName prop)"
| "lv_has mgr (FallbackProxy w moduleName) prop =
     (if prop = StrKey ''toString'' \<or> prop = StrKey ''valueOf'' then Inr True
      else hasFallback mgr moduleName prop)"
| "lv_has mgr (FallbackObjectProxy propertyPath) prop =
     (if prop = StrKey ''toString'' \<or> prop = StrKey ''valueOf'' then Inr True
      else hasFallback mgr propertyPath prop)"
| "lv_has mgr (EventEmitterProxy p moduleName) (StrKey k) = Inr (k \<in> set Object_prototype_keys)"
| "lv_has mgr (ReactContextProxy p moduleName) (StrKey k) = Inr (k \<in> set Object_prototype_keys)"
| "lv_has mgr _ _ = Inr False"

definition getFallbackValue :: "manager \<Rightarrow> string \<Rightarrow> string \<Rightarrow> jsval \<Rightarrow> layer_value" where
  "getFallbackValue mgr moduleName prop config =
     (let fullPath = moduleName @ ''.'' @ prop;
          customFallback = getCustomFallback mgr fullPath config
      in if truthy customFallback then Plain customFallback
         else let builtInFallback = getBuiltInFallback mgr fullPath in
           if truthy builtInFallback then Plain builtInFallback
           else if isMethodName prop
           then FallbackMethod fullPath (js_or (field config ''returnValue'') (returnValue mgr))
           else Plain (js_or (field config ''returnValue'') (returnValue mgr)))"

definition shouldCreateFallbackObject :: "string \<Rightarrow> bool" where
  "shouldCreateFallbackObject prop =
     (list_ex (\<lambda>sfx. endsWith prop sfx)
        [''State'', ''Type'', ''Constant'', ''Constants'', ''Config'', ''Option'', ''Options'',
         ''Setting'', ''Settings'', ''Style'', ''Styles'', ''Theme'', ''Event'', ''Manager'',
         ''Handler'']
      \<or> prop \<in> set
        [''NetInfoStateType'', ''ConnectionType'', ''NetInfoConfiguration'', ''DeviceType'',
         ''BatteryState'', ''PowerState'', ''MediaType'', ''ImagePickerOptions'',
         ''CameraOptions'', ''LocationOptions'', ''NotificationOptions'',
         ''HapticFeedbackType'', ''OrientationType'', ''SensorType'', ''ShareOptions'',
         ''ClipboardOptions''])"

text \<open>\<open>createProxyWrapper(target, {moduleName, config, fallbackManager, logger})\<close>.\<close>

definition createProxyWrapper ::
  "wrapper_file \<Rightarrow> layer_value \<Rightarrow> string \<Rightarrow> jsval \<Rightarrow> error + layer_value" where
  "createProxyWrapper w target moduleName config =
     (if \<not> lv_truthy target then Inr (FallbackProxy w moduleName)
      else if lv_is_object target \<or> lv_is_function target
      then Inr (ProxyWrapper w target moduleName config)
      else Inl (TypeError ''Cannot create proxy with a non-object as target or handler''))"

definition context_defaultValue :: jsval where
  "context_defaultValue =
     JObject [(''insets'', JObject [(''top'', JNum 0), (''bottom'', JNum 0),
                                   (''left'', JNum 0), (''right'', JNum 0)]),
              (''frame'', JObject [(''x'', JNum 0), (''y'', JNum 0),
                                  (''width'', JNum 0), (''height'', JNum 0)])]"

text \<open>The \<open>get\<close> trap of \<open>createEventEmitterProxy(prop, moduleName, logger)\<close>.\<close>

definition createEventEmitterProxy_get ::
  "string \<Rightarrow> string \<Rightarrow> propkey \<Rightarrow> error + layer_value" where
  "createEventEmitterProxy_get prop moduleName eventProp =
     (if eventProp = StrKey ''addListener''
      then Inr (ListenerProxy ''addListener'' (moduleName @ ''.'' @ prop))
      else if eventProp = StrKey ''addEventListener''
      then Inr (ListenerProxy ''addEventListener'' (moduleName @ ''.'' @ prop))
      else if eventProp = StrKey ''removeListener''
      then Inr (RemoveListenerProxy ''removeListener'' (moduleName @ ''.'' @ prop))
      else if eventProp = StrKey ''removeEventListener''
      then Inr (RemoveListenerProxy ''removeEventListener'' (moduleName @ ''.'' @ prop))
      else if eventProp = StrKey ''removeAllListeners''
      then Inr (RemoveListenerProxy ''removeAllListeners'' (moduleName @ ''.'' @ prop))
      else (case template eventProp of
              Inl e \<Rightarrow> Inl e
            | Inr ep \<Rightarrow> Inr (Plain JUndefined)))"

text \<open>The \<open>get\<close> trap of \<open>createReactContextProxy(prop, moduleName, logger)\<close>.\<close>

definition createReactContextProxy_get ::
  "string \<Rightarrow> string \<Rightarrow> propkey \<Rightarrow> error + layer_value" where
  "createReactContextProxy_get prop moduleName contextProp =
     (if contextProp = StrKey ''Provider''
      then Inr (ReactComponentProxy ''Provider'' (moduleName @ ''.'' @ prop))
      else if contextProp = StrKey ''Consumer'' then Inr (ContextConsumer prop moduleName)
      else if contextProp = StrKey ''_currentValue'' \<or> contextProp = StrKey ''_context''
      then Inr (Plain context_defaultValue)
      else (case template contextProp of
              Inl e \<Rightarrow> Inl e
            | Inr cp \<Rightarrow> Inr (Plain JUndefined)))"

text \<open>The \<open>get\<close> trap of \<open>createSafePropertyProxy(moduleName, prop, fallbackManager, logger)\<close>.\<close>

definition createSafePropertyProxy_get ::
  "string \<Rightarrow> string \<Rightarrow> propkey \<Rightarrow> error + layer_value" where
  "createSafePropertyProxy_get moduleName prop nestedProp =
     (let fullPath = moduleName @ ''.'' @ prop in
      if nestedProp = StrKey ''toString''
      then Inr (ConstFunction (JStr (''[SafeProxy: '' @ fullPath @ '']'')))
      else if nestedProp = StrKey ''valueOf'' then Inr (ConstFunction JNull)
      else if nestedProp = SymKey ''Symbol.toPrimitive'' then Inr (ConstFunction JNull)
      else (case template nestedProp of
              Inl e \<Rightarrow> Inl e
            | Inr np \<Rightarrow> Inr (SafePropertyProxy fullPath np)))"

text \<open>The \<open>get\<close> trap of \<open>createFallbackObjectProxy(propertyPath, fallbackManager, logger)\<close>.\<close>

definition createFallbackObjectProxy_get ::
  "manager \<Rightarrow> string \<Rightarrow> propkey \<Rightarrow> error + layer_value" where
  "createFallbackObjectProxy_get mgr propertyPath prop =
     (if prop = StrKey ''toString''
      then Inr (ConstFunction (JStr (''[FallbackObject for '' @ propertyPath @ '']'')))
      else if prop = StrKey ''valueOf'' then Inr (ConstFunction (JObject []))
      else (case template prop of
              Inl e \<Rightarrow> Inl e
            | Inr p \<Rightarrow> Inr (getFallbackValue mgr propertyPath p (JObject []))))"

text \<open>
  The pattern recognition that the \<open>get\<close> traps of the \<open>demo-app\<close> file apply to the name of a
  missing property, up to the point where the two traps differ: \<open>None\<close> when no pattern
  matches.
\<close>

definition is_hook_name :: "string \<Rightarrow> bool" where
  "is_hook_name prop =
     (startsWith prop ''use'' \<and> length prop > 3 \<and> prop ! 3 = toUpperChar (prop ! 3))"

definition smart_fallback :: "string \<Rightarrow> string \<Rightarrow> jsval \<Rightarrow> (error + layer_value) option" where
  "smart_fallback moduleName prop contextConfig =
     (if prop = ''PushEvents'' \<or> endsWith prop ''Events''
      then Some (Inr (EventEmitterProxy prop moduleName))
      else if endsWith prop ''Context'' \<or> prop = ''Context''
      then Some (createProxyWrapper DemoAppSrc (ReactContextProxy prop moduleName)
                   (moduleName @ ''.'' @ prop) contextConfig)
      else if endsWith prop ''Provider'' \<or> endsWith prop ''Consumer'' \<or> endsWith prop ''View''
              \<or> endsWith prop ''Component''
      then Some (Inr (ReactComponentProxy prop moduleName))
      else if is_hook_name prop then Some (Inr (ReactHookProxy prop moduleName))
      else if prop = ''addListener'' \<or> prop = ''addEventListener''
      then Some (Inr (ListenerProxy prop moduleName))
      else if prop = ''removeListener'' \<or> prop = ''removeEventListener''
              \<or> prop = ''removeAllListeners''
      then Some (Inr (RemoveListenerProxy prop moduleName))
      else None)"

text \<open>The \<open>get\<close> trap of \<open>createFallbackProxy(moduleName, fallbackManager, logger)\<close>.\<close>

definition createFallbackProxy_get ::
  "wrapper_file \<Rightarrow> manager \<Rightarrow> string \<Rightarrow> propkey \<Rightarrow> error + layer_value" where
  "createFallbackProxy_get w mgr moduleName prop =
     (if prop = StrKey ''toString''
      then Inr (ConstFunction (JStr (''[FallbackProxy for '' @ moduleName @ '']'')))
      else if prop = StrKey ''valueOf'' then Inr (ConstFunction (JObject []))
      else (case template prop of
              Inl e \<Rightarrow> Inl e
            | Inr p \<Rightarrow>
                (case w of
                   RuntimeResolverSrc \<Rightarrow> Inr (getFallbackValue mgr moduleName p (JObject []))
                 | DemoAppSrc \<Rightarrow>
                     (case smart_fallback moduleName p (JObject []) of
                        Some r \<Rightarrow> r
                      | None \<Rightarrow> Inr (getFallbackValue mgr moduleName p (JObject []))))))"

text \<open>
  The branch of the \<open>get\<close> trap of \<open>createProxyWrapper\<close> for a property that exists on the
  target, given its value. (\<open>shouldCreateFallbackObject\<close> applies its regular expressions to
  the key, which converts it to a string.)
\<close>

definition wrap_existing ::
  "wrapper_file \<Rightarrow> layer_value \<Rightarrow> propkey \<Rightarrow> string \<Rightarrow> jsval \<Rightarrow> error + layer_value" where
  "wrap_existing w val prop moduleName config =
     (if lv_is_function val
      then Inr (MethodProxy val prop moduleName config)
      else if lv_is_object val
      then (case template prop of
              Inl e \<Rightarrow> Inl e
            | Inr p \<Rightarrow> createProxyWrapper w val (moduleName @ ''.'' @ p)
                         (js_or (field config p) (JObject [])))
      else if val = Plain JNull \<or> val = Plain JUndefined
      then (case template prop of
              Inl e \<Rightarrow> Inl e
            | Inr p \<Rightarrow> if shouldCreateFallbackObject p
                       then Inr (FallbackObjectProxy (moduleName @ ''.'' @ p))
                       else Inr val)
      else Inr val)"

text \<open>The branch of the same trap for a property that the target does not have.\<close>

definition wrap_missing ::
  "wrapper_file \<Rightarrow> manager \<Rightarrow> propkey \<Rightarrow> string \<Rightarrow> jsval \<Rightarrow> error + layer_value" where
  "wrap_missing w mgr prop moduleName config =
     (case template prop of
        Inl e \<Rightarrow> Inl e
      | Inr p \<Rightarrow>
          (case w of
             RuntimeResolverSrc \<Rightarrow> Inr (getFallbackValue mgr moduleName p config)
           | DemoAppSrc \<Rightarrow>
               (case smart_fallback moduleName p (js_or (field config p) (JObject [])) of
                  Some r \<Rightarrow> r
                | None \<Rightarrow> Inr (SafePropertyProxy moduleName p))))"

text \<open>
  \<open>v[prop]\<close>: a property read on a value of the layer, through the \<open>get\<close> trap when the
  value is a proxy. The properties of function objects are not modelled.
\<close>

fun lv_get :: "manager \<Rightarrow> layer_value \<Rightarrow> propkey \<Rightarrow> error + layer_value" where
  "lv_get mgr (Plain v) (StrKey k) = Inr (Plain (field v k))"
| "lv_get mgr (ProxyWrapper w obj moduleName config) prop =
     (case lv_has mgr obj prop of
        Inl e \<Rightarrow> Inl e
      | Inr True \<Rightarrow>
          (case lv_get mgr obj prop of
             Inl e \<Rightarrow> Inl e
           | Inr val \<Rightarrow> wrap_existing w val prop moduleName config)
      | Inr False \<Rightarrow> wrap_missing w mgr prop moduleName config)"
| "lv_get mgr (FallbackProxy w moduleName) prop = createFallbackProxy_get w mgr moduleName prop"
| "lv_get mgr (FallbackObjectProxy propertyPath) prop =
     createFallbackObjectProxy_get mgr propertyPath prop"
| "lv_get mgr (EventEmitterProxy p moduleName) prop = createEventEmitterProxy_get p moduleName prop"
| "lv_get mgr (ReactContextProxy p moduleName) prop = createReactContextProxy_get p moduleName prop"
| "lv_get mgr (SafePropertyProxy moduleName p) prop = createSafePropertyProxy_get moduleName p prop"
| "lv_get mgr _ _ = Inr (Plain JUndefined)"

section \<open>Synthesized React stand-ins (proxy-wrapper, wrapper-generator)\<close>

text \<open>
  A call of a synthesized function is described by the calls it makes to functions it was
  handed, in order, each with its arguments, and by what it returns or throws.
\<close>

type_synonym call_run = "(jsval \<times> jsval list) list \<times> (jsval + jsval)"

text \<open>
  The body shared by the \<open>Consumer\<close> of \<open>createReactContextProxy\<close> and the \<open>Consumer\<close> of
  \<open>WrapperGenerator.generateReactContextWrapper\<close>, for the default value \<open>dv\<close> of the
  context: \<open>props\<close> defaults to an empty object, and destructuring \<open>null\<close> throws.
\<close>

definition Consumer_call :: "funs \<Rightarrow> jsval \<Rightarrow> jsval \<Rightarrow> call_run" where
  "Consumer_call funs dv props =
     (if props = JNull
      then ([], Inl (JErr (TypeError ''Cannot destructure property of null'')))
      else let children = field props ''children'' in
        if is_function children
        then ([(children, [dv])], call_function funs children [dv])
        else ([], Inr (js_or children JNull)))"

text \<open>A call of the \<open>Consumer\<close> function that \<open>createReactContextProxy\<close> hands out.\<close>

definition ContextConsumer_call :: "funs \<Rightarrow> jsval \<Rightarrow> call_run" where
  "ContextConsumer_call funs props = Consumer_call funs context_defaultValue props"

text \<open>
  \<open>generateReactContextWrapper(key, exportInfo, moduleName)\<close>: the default value of the
  stand-in, stored under \<open>_currentValue\<close> and \<open>_context\<close>, and a call of its \<open>Consumer\<close>.
\<close>

definition contextDefaultValue :: "jsval \<Rightarrow> jsval" where
  "contextDefaultValue exportInfo = js_or (field exportInfo ''defaultValue'') context_defaultValue"

definition generateReactContextWrapper_Consumer :: "funs \<Rightarrow> jsval \<Rightarrow> jsval \<Rightarrow> call_run" where
  "generateReactContextWrapper_Consumer funs exportInfo props =
     Consumer_call funs (contextDefaultValue exportInfo) props"

text \<open>
  Where a component stand-in finds React: on \<open>window.React\<close>, through
  \<open>require('react-native')\<close> and \<open>require('react')\<close>, or nowhere.
\<close>

datatype react_runtime = WindowReact | ReactNative | NoReact

text \<open>
  A call, with argument \<open>props\<close>, of the function that
  \<open>createReactComponentProxy(prop, moduleName, logger)\<close> returns. \<open>JStr ''View''\<close> stands for
  the \<open>View\<close> component of \<open>react-native\<close>.
\<close>

definition createReactComponentProxy_call ::
  "react_runtime \<Rightarrow> string \<Rightarrow> string \<Rightarrow> jsval \<Rightarrow> call_run" where
  "createReactComponentProxy_call rt prop moduleName props0 =
     (let props = (if props0 = JUndefined then JObject [] else props0) in
      if props = JNull
      then ([], Inl (JErr (TypeError ''Cannot read properties of null (reading 'children')'')))
      else case rt of
        WindowReact \<Rightarrow>
          ([], Inr (JElement (JStr ''div'')
                     (JObject [(''data-fallback'', JStr (moduleName @ ''.'' @ prop)),
                               (''style'', JObject [(''display'', JStr ''contents'')])])
                     (field props ''children'')))
      | ReactNative \<Rightarrow> ([], Inr (JElement (JStr ''View'') props (field props ''children'')))
      | NoReact \<Rightarrow>
          ([], Inr (JObject [(''type'', JStr ''mock-component''), (''props'', props),
                             (''children'', field props ''children'')])))"

section \<open>Platform detector (platform-detector)\<close>

text \<open>
  What \<open>detectPlatform\<close> probes: \<open>Platform.OS\<close> of \<open>react-native\<close> when the module loads and
  the value is truthy; whether \<open>window\<close> and \<open>document\<close> are defined; whether
  \<open>process.versions.node\<close> is truthy; \<open>global.navigator.product\<close>; \<open>navigator.userAgent\<close> when
  truthy; whether \<open>fetch\<close>, \<open>Headers\<close> and \<open>Request\<close> are all defined.
\<close>

record environment =
  platformOS :: "string option"
  window_defined :: bool
  document_defined :: bool
  process_versions_node :: bool
  global_navigator_product :: "string option"
  navigator_userAgent :: "string option"
  fetch_apis_defined :: bool

definition detectPlatform :: "environment \<Rightarrow> string" where
  "detectPlatform env =
     (case platformOS env of
        Some os \<Rightarrow> os
      | None \<Rightarrow>
          if window_defined env \<and> document_defined env then ''web''
          else if process_versions_node env then ''node''
          else if global_navigator_product env = Some ''ReactNative'' then ''native''
          else case navigator_userAgent env of
            Some userAgent \<Rightarrow>
              if str_includes userAgent ''iPhone'' \<or> str_includes userAgent ''iPad'' then ''ios''
              else if str_includes userAgent ''Android'' then ''android''
              else ''web''
          | None \<Rightarrow> if fetch_apis_defined env then ''web'' else ''unknown'')"

section \<open>Runtime resolver (runtime-resolver)\<close>

text \<open>
  A module handed to \<open>resolve\<close>, and what \<open>resolve\<close> returns: a primitive value, or a
  reference to an object. Two references are the same object exactly when they are equal.
\<close>

datatype handle = Value jsval | Object nat

text \<open>
  The state of a \<open>RuntimeResolver\<close> that \<open>resolve\<close> reads or writes: \<open>config.modules\<close>
  (an ordinary object, given by its own entries), the memoized platform of its
  \<open>PlatformDetector\<close>, its \<open>moduleCache\<close>, and the objects that exist, each with its
  description; \<open>nextObject\<close> is the address the next object created gets.
  \<open>proxyWrapperFile\<close> says which \<open>proxy-wrapper.js\<close> the resolver was loaded with.
\<close>

record resolver =
  modules :: "string \<rightharpoonup> jsval"
  proxyWrapperFile :: wrapper_file
  cachedPlatform :: "string option"
  moduleCache :: "string \<rightharpoonup> handle"
  objects :: "nat \<rightharpoonup> layer_value"
  nextObject :: nat

definition isWeb :: "environment \<Rightarrow> resolver \<Rightarrow> bool \<times> resolver" where
  "isWeb env st =
     (case cachedPlatform st of
        Some p \<Rightarrow> (p = ''web'', st)
      | None \<Rightarrow>
          let p = detectPlatform env
          in (p = ''web'', st\<lparr>cachedPlatform := Some p\<rparr>))"

definition deref :: "resolver \<Rightarrow> handle \<Rightarrow> layer_value" where
  "deref st h =
     (case h of
        Value v \<Rightarrow> Plain v
      | Object r \<Rightarrow> (case objects st r of Some lv \<Rightarrow> lv | None \<Rightarrow> Plain (JObject [])))"

definition resolve ::
  "environment \<Rightarrow> resolver \<Rightarrow> string \<Rightarrow> handle \<Rightarrow> (error + handle) \<times> resolver" where
  "resolve env st moduleName originalModule =
     (case moduleCache st moduleName of
        Some cached \<Rightarrow> (Inr cached, st)
      | None \<Rightarrow>
          let (web, st1) = isWeb env st;
              moduleConfig = js_or (own_or_inherited (modules st1) moduleName) (JObject [])
          in if \<not> web
             then (Inr originalModule,
                   st1\<lparr>moduleCache := (moduleCache st1)(moduleName \<mapsto> originalModule)\<rparr>)
             else case createProxyWrapper (proxyWrapperFile st1) (deref st1 originalModule)
                         moduleName moduleConfig of
               Inl e \<Rightarrow> (Inl e, st1)
             | Inr proxy \<Rightarrow>
                 let r = nextObject st1
                 in (Inr (Object r),
                     st1\<lparr>objects := (objects st1)(r \<mapsto> proxy),
                         nextObject := Suc r,
                         moduleCache := (moduleCache st1)(moduleName \<mapsto> Object r)\<rparr>))"


section \<open>The fallback policy, in the words of the specification\<close>

text \<open>
  A rule is declared for a failing or missing member \<open>name\<close> of a module by one of three
  origins: the per-call fallback of the configuration passed with the operation, the entry
  of the per-module custom table for the dotted path, and the entry of the built-in table
  for the module and the member. These are entries of the tables themselves; an entry
  counts when its value is truthy.
\<close>

definition own_property :: "jsval \<Rightarrow> string \<Rightarrow> jsval option" where
  "own_property v k = (case v of JObject ps \<Rightarrow> map_of ps k | _ \<Rightarrow> None)"

definition truthy_entry :: "jsval option \<Rightarrow> jsval option" where
  "truthy_entry e = (case e of Some v \<Rightarrow> if truthy v then Some v else None | None \<Rightarrow> None)"

definition per_call_rule :: "jsval \<Rightarrow> jsval option" where
  "per_call_rule config = truthy_entry (own_property config ''fallback'')"

definition custom_table_rule :: "manager \<Rightarrow> string \<Rightarrow> string \<Rightarrow> jsval option" where
  "custom_table_rule mgr moduleName name =
     truthy_entry (customFallbacks mgr (moduleName @ ''.'' @ name))"

definition builtIn_table_rule :: "manager \<Rightarrow> string \<Rightarrow> string \<Rightarrow> jsval option" where
  "builtIn_table_rule mgr moduleName name =
     truthy_entry (case builtInFallbacks mgr moduleName of
                     Some table \<Rightarrow> table name
                   | None \<Rightarrow> None)"

text \<open>
  The rule that applies is that of the first origin, in this order, that declares one. A
  per-call or custom rule that is a function receives the error, the arguments and the
  dotted path; a built-in rule that is a function receives the arguments.
\<close>

datatype rule = Custom jsval | BuiltIn jsval

fun rule_value :: "rule \<Rightarrow> jsval" where
  "rule_value (Custom v) = v"
| "rule_value (BuiltIn v) = v"

definition declared_rule :: "manager \<Rightarrow> string \<Rightarrow> string \<Rightarrow> jsval \<Rightarrow> rule option" where
  "declared_rule mgr moduleName name config =
     (case per_call_rule config of
        Some r \<Rightarrow> Some (Custom r)
      | None \<Rightarrow>
          (case custom_table_rule mgr moduleName name of
             Some r \<Rightarrow> Some (Custom r)
           | None \<Rightarrow>
               (case builtIn_table_rule mgr moduleName name of
                  Some r \<Rightarrow> Some (BuiltIn r)
                | None \<Rightarrow> None)))"




text \<open>
  The default by naming convention for a missing property that no rule covers: a no-op
  method for a method-like name, and otherwise the return value of the call configuration
  when truthy, or else that of the manager.
\<close>

definition convention_default :: "manager \<Rightarrow> string \<Rightarrow> string \<Rightarrow> jsval \<Rightarrow> layer_value" where
  "convention_default mgr moduleName prop config =
     (let rv = (case truthy_entry (own_property config ''returnValue'') of
                  Some v \<Rightarrow> v
                | None \<Rightarrow> returnValue mgr)
      in if isMethodName prop then FallbackMethod (moduleName @ ''.'' @ prop) rv else Plain rv)"

section \<open>Example modules and configurations\<close>

text \<open>
  Functions of a module and of an application: number 0 throws an error, number 1 is a
  fallback rule that throws the error it is given, number 2 returns a promise that rejects,
  every other function returns \<open>undefined\<close>.
\<close>

definition module_funs :: funs where
  "module_funs f args =
     (if f = JFun 0 then Inl (JErr (Error ''Not available''))
      else if f = JFun 1 then (case args of e # rest \<Rightarrow> Inl e | [] \<Rightarrow> Inr JUndefined)
      else if f = JFun 2 then Inr (JPromise (Inl (JErr (Error ''Permission denied''))))
      else Inr JUndefined)"



definition falsy_rule_manager :: manager where
  "falsy_rule_manager =
     default_manager\<lparr>customFallbacks := [''expo-battery.isAvailable'' \<mapsto> JBool False]\<rparr>"

text \<open>
  A module configuration with a fallback written as the README shows it, a table from
  method names to functions.
\<close>

definition fallback_config :: jsval where
  "fallback_config = JObject [(''fallback'', JObject [(''getBatteryLevel'', JFun 3)])]"

text \<open>A wrapped module with no properties, and the context stand-in read from it.\<close>

definition empty_module_wrapper :: "wrapper_file \<Rightarrow> layer_value" where
  "empty_module_wrapper w =
     ProxyWrapper w (Plain (JObject [])) ''react-native-safe-area-context'' (JObject [])"

definition context_wrapper :: layer_value where
  "context_wrapper =
     ProxyWrapper DemoAppSrc
       (ReactContextProxy ''SafeAreaInsetsContext'' ''react-native-safe-area-context'')
       ''react-native-safe-area-context.SafeAreaInsetsContext'' (JObject [])"

text \<open>A wrapped battery module with no properties, with a given module configuration.\<close>

definition battery_wrapper :: "jsval \<Rightarrow> layer_value" where
  "battery_wrapper config =
     ProxyWrapper RuntimeResolverSrc (Plain (JObject [])) ''expo-battery'' config"

text \<open>Props whose child is function number 7, which returns the array of its arguments.\<close>

definition child_props :: jsval where
  "child_props = JObject [(''children'', JFun 7)]"

definition child_funs :: funs where
  "child_funs f args = (if f = JFun 7 then Inr (JArray args) else Inr JUndefined)"

text \<open>A browser, an iOS device, and a resolver that has resolved nothing yet.\<close>

definition web_environment :: environment where
  "web_environment =
     \<lparr>platformOS = None, window_defined = True, document_defined = True,
      process_versions_node = False, global_navigator_product = None,
      navigator_userAgent = Some ''Mozilla/5.0'', fetch_apis_defined = True\<rparr>"

definition native_environment :: environment where
  "native_environment =
     \<lparr>platformOS = Some ''ios'', window_defined = False, document_defined = False,
      process_versions_node = False, global_navigator_product = Some ''ReactNative'',
      navigator_userAgent = None, fetch_apis_defined = True\<rparr>"

definition fresh_resolver :: resolver where
  "fresh_resolver =
     \<lparr>modules = Map.empty, proxyWrapperFile = DemoAppSrc, cachedPlatform = None,
      moduleCache = Map.empty,
      objects = [1 \<mapsto> Plain (JObject [(''takePicture'', JFun 0)]), 2 \<mapsto> Plain (JObject [])],
      nextObject = 3\<rparr>"

definition web_after_first :: resolver where
  "web_after_first = snd (resolve web_environment fresh_resolver ''expo-camera'' (Object 1))"

definition native_after_first :: resolver where
  "native_after_first =
     snd (resolve native_environment fresh_resolver ''expo-camera'' (Object 1))"

section \<open>Properties of the classifier\<close>

lemma isTrulyNativeModule_no_prefix:
  "\<not> str_includes moduleName ''react-native'' \<Longrightarrow> \<not> str_includes moduleName ''expo''
   \<Longrightarrow> isTrulyNativeModule fs moduleName = False"
  by (simp add: isTrulyNativeModule_def)

text \<open>
  \<open>getNativeDetectionConfidence\<close> has no such rule: when no package metadata is found, a
  name outside the allow-list that contains one of the hardware keywords is classified
  mobile-only with medium confidence, whatever else it mentions.
\<close>

lemma getNativeDetectionConfidence_keyword:
  assumes "moduleName \<notin> set WEB_COMPATIBLE_LIBRARIES" and "hasNativeOnlyPatterns moduleName"
  shows "isNative (getNativeDetectionConfidence no_files moduleName)
       \<and> confidence (getNativeDetectionConfidence no_files moduleName) = ''medium''"
  using assms
  by (simp add: getNativeDetectionConfidence_def checkPackageJsonPlatformSupport_def
        no_files_def)

text \<open>
  \<^bold>\<open>C8.\<close> An identifier that mentions neither \<open>react-native\<close> nor \<open>expo\<close> is to be
  classified as not mobile-only, before any package metadata or hardware keyword is looked
  at. \<open>isTrulyNativeModule\<close> does so (lemma \<open>isTrulyNativeModule_no_prefix\<close>), but
  \<open>getNativeDetectionConfidence\<close>, the classifier the resolver consults, has no such rule:
  \<open>video.js\<close> mentions neither prefix, no package metadata is found for it, and it is
  classified mobile-only with medium confidence because its name contains \<open>video\<close>.
\<close>

theorem C8_confidence_classifier_misses_prefix_rule:
  "\<not> str_includes ''video.js'' ''react-native'' \<and> \<not> str_includes ''video.js'' ''expo''
   \<and> isTrulyNativeModule no_files ''video.js'' = False
   \<and> getNativeDetectionConfidence no_files ''video.js''
       = \<lparr>isNative = True, confidence = ''medium'',
          reason = ''module name suggests native-only functionality''\<rparr>"
  by code_simp


section \<open>Properties of the bundler resolution layer\<close>

text \<open>
  For an identifier that is not the name of a member of \<open>Object.prototype\<close>, a tier yields
  its own entry and nothing else.
\<close>

lemma lookup_truthy_own:
  "m \<notin> set Object_prototype_keys \<Longrightarrow> lookup_truthy t m = map_option Name (tier_entry t m)"
  by (simp add: lookup_truthy_def tier_entry_def split: option.splits)

lemma tiers_without_entry:
  assumes "spec_substitute b opts m = None" and "m \<notin> set Object_prototype_keys"
  shows "lookup_truthy (overrides opts) m = None"
    and "lookup_truthy (moduleMap opts) m = None"
    and "lookup_truthy (BUILT_IN_MAPPINGS b) m = None"
  using assms by (auto simp: spec_substitute_def lookup_truthy_own split: option.splits)

lemma improved_try_tier:
  "spec_substitute b opts m = Some sub \<Longrightarrow> m \<notin> set Object_prototype_keys
   \<Longrightarrow> \<not> list_ex (pattern_matches m) (excludePatterns opts)
   \<Longrightarrow> improved_try b opts m = delegate b (Name sub)"
  by (auto simp: improved_try_def spec_substitute_def lookup_truthy_own split: option.splits)

lemma legacy_try_tier:
  "spec_substitute b opts m = Some sub \<Longrightarrow> m \<notin> set Object_prototype_keys
   \<Longrightarrow> legacy_try b opts m = delegate b (Name sub)"
  by (auto simp: legacy_try_def spec_substitute_def lookup_truthy_own split: option.splits)

text \<open>
  The failure semantics of \<open>createImprovedWebCompatResolver\<close> on a browser-like target: an
  exception of the \<open>try\<close> block propagates under \<open>strict\<close>; under any other strategy the
  original identifier is delegated and the delegate's answer is the result.
\<close>

lemma improved_resolver_failure_semantics:
  assumes "isWebPlatform p (webPlatforms opts)" and "improved_try b opts m = (ds, Inl e)"
  shows "createImprovedWebCompatResolver b opts m p =
           (if fallbackStrategy opts = ''strict'' then (ds, Inl e)
            else (ds @ [Name m], baseResolver b (Name m)))"
  using assms by (simp add: createImprovedWebCompatResolver_def)

text \<open>
  \<open>createWebCompatResolver\<close> has the two strategies the other way round: an exception of
  the \<open>try\<close> block propagates under \<open>graceful\<close>, and under any other strategy, \<open>strict\<close>
  included, the original identifier is delegated.
\<close>

lemma legacy_resolver_failure_semantics:
  assumes "isWebPlatform p (webPlatforms opts)" and "legacy_try b opts m = (ds, Inl e)"
  shows "createWebCompatResolver b opts m p =
           (if fallbackStrategy opts = ''graceful'' then (ds, Inl e)
            else (ds @ [Name m], baseResolver b (Name m)))"
  using assms by (simp add: createWebCompatResolver_def)

text \<open>
  \<^bold>\<open>C1.\<close> An exception raised by the delegate or by synthesis is to be caught, and then
  \<open>graceful\<close> falls through to delegating the original identifier while \<open>strict\<close> lets the
  exception propagate. \<open>createWebCompatResolver\<close> tests the strategy the other way round:
  with the override \<open>pkg-a \<rightarrow> sub-a\<close> and a delegate that rejects \<open>sub-a\<close>, on target \<open>web\<close>,
  \<open>graceful\<close> propagates the delegate's exception and \<open>strict\<close> swallows it and delegates
  \<open>pkg-a\<close>. \<open>createImprovedWebCompatResolver\<close> behaves as the claim says on the same input.
  (The test of the strategy in the branch for disabled mock generation is inverted in the
  same way: lemma \<open>legacy_resolver_mocks_disabled\<close>.)
\<close>

theorem C1_legacy_resolver_inverts_failure_strategy:
  "createWebCompatResolver example_bundler (override_options ''graceful'') ''pkg-a'' (Some ''web'')
     = ([Name ''sub-a''], Inl (Error ''Unable to resolve module sub-a''))
   \<and> createWebCompatResolver example_bundler (override_options ''strict'') ''pkg-a'' (Some ''web'')
     = ([Name ''sub-a'', Name ''pkg-a''], Inr ''/node_modules/pkg-a'')
   \<and> createImprovedWebCompatResolver example_bundler (override_options ''graceful'') ''pkg-a''
       (Some ''web'')
     = ([Name ''sub-a'', Name ''pkg-a''], Inr ''/node_modules/pkg-a'')
   \<and> createImprovedWebCompatResolver example_bundler (override_options ''strict'') ''pkg-a''
       (Some ''web'')
     = ([Name ''sub-a''], Inl (Error ''Unable to resolve module sub-a''))"
  by (simp add: createWebCompatResolver_def createImprovedWebCompatResolver_def legacy_try_def
        improved_try_def isWebPlatform_def toLowerCase_def toLowerChar_def lookup_truthy_def
        delegate_def example_bundler_def override_options_def default_options_def)

text \<open>
  With mock generation disabled, on a browser-like target, for an identifier that no tier
  contains and that is not the name of a member of \<open>Object.prototype\<close>:
  \<open>createWebCompatResolver\<close>, when \<open>isMobileSpecificModule\<close> accepts the identifier, throws
  its policy error under \<open>graceful\<close>, and under every other strategy, \<open>strict\<close> included,
  delegates the original identifier and nothing else, the result being the delegate's answer.
\<close>

lemma legacy_resolver_mocks_disabled:
  assumes web: "isWebPlatform p (webPlatforms opts)"
    and ntier: "spec_substitute b opts m = None"
    and own: "m \<notin> set Object_prototype_keys"
    and mob: "isMobileSpecificModule m"
    and nomock: "\<not> generateMocks opts"
  shows "(fallbackStrategy opts = ''graceful'' \<longrightarrow>
           createWebCompatResolver b opts m p =
             ([], Inl (Error (''Mobile-specific module '' @ quoted m
                              @ '' not available on web platform''))))
       \<and> (fallbackStrategy opts \<noteq> ''graceful'' \<longrightarrow>
           snd (createWebCompatResolver b opts m p) = baseResolver b (Name m)
           \<and> set (fst (createWebCompatResolver b opts m p)) = {Name m})"
proof -
  have t: "legacy_try b opts m =
          (if fallbackStrategy opts = ''graceful''
           then ([], Inl (Error (''Mobile-specific module '' @ quoted m
                                 @ '' not available on web platform'')))
           else delegate b (Name m))"
    using tiers_without_entry [OF ntier own] mob nomock by (simp add: legacy_try_def)
  have a: "fallbackStrategy opts = ''graceful'' \<longrightarrow>
           createWebCompatResolver b opts m p =
             ([], Inl (Error (''Mobile-specific module '' @ quoted m
                              @ '' not available on web platform'')))"
    using web t by (simp add: createWebCompatResolver_def)
  have c: "fallbackStrategy opts \<noteq> ''graceful'' \<longrightarrow>
           snd (createWebCompatResolver b opts m p) = baseResolver b (Name m)
           \<and> set (fst (createWebCompatResolver b opts m p)) = {Name m}"
    using web t
    by (cases "baseResolver b (Name m)") (auto simp: createWebCompatResolver_def delegate_def)
  from a c show ?thesis by blast
qed

text \<open>
  \<open>createImprovedWebCompatResolver\<close> under the same conditions, when no exclude pattern
  matches the identifier and it is force-included or classified mobile-only at or above the
  confidence threshold: it throws its policy error under \<open>strict\<close>, and under every other
  strategy delegates the original identifier and nothing else, the result being the
  delegate's answer.
\<close>

lemma improved_resolver_mocks_disabled:
  assumes web: "isWebPlatform p (webPlatforms opts)"
    and nex: "\<not> list_ex (pattern_matches m) (excludePatterns opts)"
    and ntier: "spec_substitute b opts m = None"
    and own: "m \<notin> set Object_prototype_keys"
    and proc: "list_ex (pattern_matches m) (forceIncludePatterns opts)
               \<or> (isNative (getNativeDetectionConfidence (files b) m)
                  \<and> shouldProcessBasedOnConfidence
                       (confidence (getNativeDetectionConfidence (files b) m))
                       (confidenceThreshold opts))"
    and nomock: "\<not> generateMocks opts"
  shows "(fallbackStrategy opts = ''strict'' \<longrightarrow>
           createImprovedWebCompatResolver b opts m p =
             ([], Inl (Error (''Native module '' @ quoted m
                              @ '' not available on web platform''))))
       \<and> (fallbackStrategy opts \<noteq> ''strict'' \<longrightarrow>
           snd (createImprovedWebCompatResolver b opts m p) = baseResolver b (Name m)
           \<and> set (fst (createImprovedWebCompatResolver b opts m p)) = {Name m})"
proof -
  note t = tiers_without_entry [OF ntier own]
  have strict: "fallbackStrategy opts = ''strict'' \<Longrightarrow> improved_try b opts m =
      ([], Inl (Error (''Native module '' @ quoted m @ '' not available on web platform'')))"
    using nex t proc nomock by (auto simp: improved_try_def Let_def)
  have graceful: "fallbackStrategy opts \<noteq> ''strict'' \<Longrightarrow>
      improved_try b opts m = delegate b (Name m)"
    using nex t proc nomock by (auto simp: improved_try_def Let_def)
  have a: "fallbackStrategy opts = ''strict'' \<longrightarrow>
           createImprovedWebCompatResolver b opts m p =
             ([], Inl (Error (''Native module '' @ quoted m
                              @ '' not available on web platform'')))"
    using web strict by (simp add: createImprovedWebCompatResolver_def)
  have c: "fallbackStrategy opts \<noteq> ''strict'' \<longrightarrow>
           snd (createImprovedWebCompatResolver b opts m p) = baseResolver b (Name m)
           \<and> set (fst (createImprovedWebCompatResolver b opts m p)) = {Name m}"
    using web graceful
    by (cases "baseResolver b (Name m)")
       (auto simp: createImprovedWebCompatResolver_def delegate_def)
  from a c show ?thesis by blast
qed

lemma unknown_sensor_is_mobile_specific:
  "isMobileSpecificModule ''react-native-unknown-sensor''"
  by code_simp

lemma unknown_sensor_detection:
  "getNativeDetectionConfidence no_files ''react-native-unknown-sensor''
     = \<lparr>isNative = True, confidence = ''medium'',
        reason = ''module name suggests native-only functionality''\<rparr>"
  by code_simp

text \<open>
  \<^bold>\<open>C5.\<close> For an identifier classified mobile-only, on a browser-like target with mock
  generation disabled, resolution is to raise a policy error under \<open>strict\<close> and to delegate
  the original identifier under \<open>graceful\<close>. \<open>createWebCompatResolver\<close> does the reverse:
  \<open>react-native-unknown-sensor\<close> is in no mapping tier and both classifiers take it for
  mobile-only; on target \<open>web\<close> with mock generation disabled, \<open>createWebCompatResolver\<close>
  delegates the original identifier under \<open>strict\<close> and throws its policy error under
  \<open>graceful\<close>. \<open>createImprovedWebCompatResolver\<close> behaves as the claim says on the same
  input.
\<close>

theorem C5_legacy_resolver_inverts_mocks_disabled_policy:
  "spec_substitute example_bundler (no_mock_options ''strict'') ''react-native-unknown-sensor''
     = None
   \<and> isMobileSpecificModule ''react-native-unknown-sensor''
   \<and> createWebCompatResolver example_bundler (no_mock_options ''strict'')
        ''react-native-unknown-sensor'' (Some ''web'')
     = ([Name ''react-native-unknown-sensor''],
        Inr ''/node_modules/react-native-unknown-sensor'')
   \<and> createWebCompatResolver example_bundler (no_mock_options ''graceful'')
        ''react-native-unknown-sensor'' (Some ''web'')
     = ([], Inl (Error (''Mobile-specific module '' @ quoted ''react-native-unknown-sensor''
                        @ '' not available on web platform'')))
   \<and> isNative (getNativeDetectionConfidence (files example_bundler)
                 ''react-native-unknown-sensor'')
   \<and> shouldProcessBasedOnConfidence
        (confidence (getNativeDetectionConfidence (files example_bundler)
                       ''react-native-unknown-sensor''))
        (confidenceThreshold (no_mock_options ''strict''))
   \<and> createImprovedWebCompatResolver example_bundler (no_mock_options ''strict'')
        ''react-native-unknown-sensor'' (Some ''web'')
     = ([], Inl (Error (''Native module '' @ quoted ''react-native-unknown-sensor''
                        @ '' not available on web platform'')))
   \<and> createImprovedWebCompatResolver example_bundler (no_mock_options ''graceful'')
        ''react-native-unknown-sensor'' (Some ''web'')
     = ([Name ''react-native-unknown-sensor''],
        Inr ''/node_modules/react-native-unknown-sensor'')"
  by (simp add: createWebCompatResolver_def createImprovedWebCompatResolver_def legacy_try_def
        improved_try_def isWebPlatform_def toLowerCase_def toLowerChar_def lookup_truthy_def
        Object_prototype_keys_def spec_substitute_def tier_entry_def delegate_def
        example_bundler_def no_mock_options_def default_options_def
        unknown_sensor_is_mobile_specific unknown_sensor_detection
        shouldProcessBasedOnConfidence_def confidenceLevels_def)

text \<open>
  \<^bold>\<open>C2\<close>, as stated, fails on the code: \<open>createImprovedWebCompatResolver\<close> checks the exclude
  patterns before any tier, so an identifier with an override that is also excluded is
  delegated unchanged on a browser-like target.
\<close>

theorem C2_excluded_identifier_counterexample:
  "spec_substitute example_bundler excluding_options ''pkg-b'' = Some ''sub-o''
   \<and> isWebPlatform (Some ''web'') (webPlatforms excluding_options)
   \<and> createImprovedWebCompatResolver example_bundler excluding_options ''pkg-b'' (Some ''web'')
       = ([Name ''pkg-b''], Inr ''/node_modules/pkg-b'')"
  by (simp add: createImprovedWebCompatResolver_def improved_try_def isWebPlatform_def
        toLowerCase_def toLowerChar_def delegate_def spec_substitute_def tier_entry_def
        example_bundler_def excluding_options_def default_options_def)

text \<open>
  The tiers are ordinary objects, so for an identifier that is the name of a member of
  \<open>Object.prototype\<close> every tier without an own entry yields the inherited member: with
  \<open>constructor\<close> in the user map only, both resolvers hand the inherited function of the
  override tier to the delegate, not the substitute. The theorem below leaves these twelve
  names out.
\<close>

lemma inherited_name_is_read_from_override_tier:
  "spec_substitute example_bundler (user_map_options ''graceful'') ''constructor''
     = Some ''sub-c''
   \<and> createImprovedWebCompatResolver example_bundler (user_map_options ''graceful'')
        ''constructor'' (Some ''web'')
     = ([PrototypeMember ''constructor'', Name ''constructor''],
        Inr ''/node_modules/constructor'')
   \<and> createWebCompatResolver example_bundler (user_map_options ''strict'')
        ''constructor'' (Some ''web'')
     = ([PrototypeMember ''constructor'', Name ''constructor''],
        Inr ''/node_modules/constructor'')"
  by (simp add: createWebCompatResolver_def createImprovedWebCompatResolver_def legacy_try_def
        improved_try_def isWebPlatform_def toLowerCase_def toLowerChar_def lookup_truthy_def
        Object_prototype_keys_def spec_substitute_def tier_entry_def delegate_def
        example_bundler_def user_map_options_def default_options_def)

text \<open>
  \<^bold>\<open>C2\<close>, amended. Let the identifier not be the name of a member of \<open>Object.prototype\<close>,
  let a mapping tier have an entry for it with a non-empty substitute, and let \<open>sub\<close> be the
  substitute of the first such tier in the order override, user map, built-in. On a
  browser-like target \<open>createWebCompatResolver\<close>, and \<open>createImprovedWebCompatResolver\<close>
  when no exclude pattern matches the identifier, delegate \<open>sub\<close> first, and return the
  delegate's answer with no further delegation when the delegate accepts \<open>sub\<close>. On any other
  target both resolvers delegate the original identifier and nothing else.
\<close>

theorem C2_tier_precedence:
  assumes "spec_substitute b opts m = Some sub" and "m \<notin> set Object_prototype_keys"
  shows "(isWebPlatform p (webPlatforms opts) \<longrightarrow>
            (\<not> list_ex (pattern_matches m) (excludePatterns opts) \<longrightarrow>
               hd (fst (createImprovedWebCompatResolver b opts m p)) = Name sub
               \<and> (\<forall>r. baseResolver b (Name sub) = Inr r \<longrightarrow>
                      createImprovedWebCompatResolver b opts m p = ([Name sub], Inr r)))
            \<and> hd (fst (createWebCompatResolver b opts m p)) = Name sub
            \<and> (\<forall>r. baseResolver b (Name sub) = Inr r \<longrightarrow>
                      createWebCompatResolver b opts m p = ([Name sub], Inr r)))
         \<and> (\<not> isWebPlatform p (webPlatforms opts) \<longrightarrow>
              createImprovedWebCompatResolver b opts m p = ([Name m], baseResolver b (Name m))
              \<and> createWebCompatResolver b opts m p = ([Name m], baseResolver b (Name m)))"
  using assms
  by (auto simp: createImprovedWebCompatResolver_def createWebCompatResolver_def
        improved_try_tier legacy_try_tier delegate_def split: sum.splits)

theorem C2_tier_precedence_witness:
  "spec_substitute example_bundler three_tier_options ''pkg-b'' = Some ''sub-o''
   \<and> ''pkg-b'' \<notin> set Object_prototype_keys
   \<and> isWebPlatform (Some ''web'') (webPlatforms three_tier_options)
   \<and> \<not> list_ex (pattern_matches ''pkg-b'') (excludePatterns three_tier_options)
   \<and> baseResolver example_bundler (Name ''sub-o'') = Inr ''/node_modules/sub-o''
   \<and> hd (fst (createImprovedWebCompatResolver example_bundler three_tier_options ''pkg-b''
               (Some ''web''))) = Name ''sub-o''
   \<and> createImprovedWebCompatResolver example_bundler three_tier_options ''pkg-b'' (Some ''web'')
       = ([Name ''sub-o''], Inr ''/node_modules/sub-o'')
   \<and> createWebCompatResolver example_bundler three_tier_options ''pkg-b'' (Some ''web'')
       = ([Name ''sub-o''], Inr ''/node_modules/sub-o'')
   \<and> \<not> isWebPlatform (Some ''ios'') (webPlatforms three_tier_options)
   \<and> createImprovedWebCompatResolver example_bundler three_tier_options ''pkg-b'' (Some ''ios'')
       = ([Name ''pkg-b''], Inr ''/node_modules/pkg-b'')
   \<and> createWebCompatResolver example_bundler three_tier_options ''pkg-b'' (Some ''ios'')
       = ([Name ''pkg-b''], Inr ''/node_modules/pkg-b'')"
proof -
  have s: "spec_substitute example_bundler three_tier_options ''pkg-b'' = Some ''sub-o''"
    by (simp add: spec_substitute_def tier_entry_def example_bundler_def
          three_tier_options_def default_options_def)
  have k: "''pkg-b'' \<notin> set Object_prototype_keys"
    by (simp add: Object_prototype_keys_def)
  have w: "isWebPlatform (Some ''web'') (webPlatforms three_tier_options)"
    by (simp add: isWebPlatform_def toLowerCase_def toLowerChar_def three_tier_options_def
          default_options_def)
  have n: "\<not> isWebPlatform (Some ''ios'') (webPlatforms three_tier_options)"
    by (simp add: isWebPlatform_def toLowerCase_def toLowerChar_def three_tier_options_def
          default_options_def)
  have x: "\<not> list_ex (pattern_matches ''pkg-b'') (excludePatterns three_tier_options)"
    by (simp add: three_tier_options_def default_options_def)
  have r: "baseResolver example_bundler (Name ''sub-o'') = Inr ''/node_modules/sub-o''"
    "baseResolver example_bundler (Name ''pkg-b'') = Inr ''/node_modules/pkg-b''"
    by (simp_all add: example_bundler_def)
  show ?thesis
    using C2_tier_precedence [OF s k, of "Some ''web''"]
      C2_tier_precedence [OF s k, of "Some ''ios''"] s k w n x r
    by simp
qed

section \<open>Properties of the fallback manager\<close>

text \<open>
  No name that an object inherits from \<open>Object.prototype\<close> contains a dot, so a dotted path
  reads as an own entry or as nothing; and the names of the configuration fields are not
  inherited.
\<close>

lemma inherited_name_has_no_dot: "k \<in> set Object_prototype_keys \<Longrightarrow> CHR ''.'' \<notin> set k"
  by (auto simp: Object_prototype_keys_def)

lemma dotted_path_not_inherited: "moduleName @ ''.'' @ name \<notin> set Object_prototype_keys"
  using inherited_name_has_no_dot [of "moduleName @ ''.'' @ name"] by auto

lemma field_own_property:
  "k \<notin> set Object_prototype_keys \<Longrightarrow>
   field v k = (case own_property v k of Some x \<Rightarrow> x | None \<Rightarrow> JUndefined)"
  by (cases v) (simp_all add: own_property_def own_or_inherited_def split: option.splits)

lemma config_fields_not_inherited:
  "''fallback'' \<notin> set Object_prototype_keys"
  "''throwError'' \<notin> set Object_prototype_keys"
  "''returnValue'' \<notin> set Object_prototype_keys"
  by (simp_all add: Object_prototype_keys_def)

lemma truthy_entry_truthy: "truthy_entry e = Some r \<Longrightarrow> truthy r"
  by (auto simp: truthy_entry_def split: option.splits if_splits)

lemma declared_rules_truthy:
  "per_call_rule config = Some r \<Longrightarrow> truthy r"
  "custom_table_rule mgr moduleName name = Some r \<Longrightarrow> truthy r"
  "builtIn_table_rule mgr moduleName name = Some r \<Longrightarrow> truthy r"
  by (auto simp: per_call_rule_def custom_table_rule_def builtIn_table_rule_def
        dest: truthy_entry_truthy)

text \<open>
  \<open>getBuiltInFallback\<close> splits the dotted path at its first dot. When the module name has
  no dot, the two parts are the module name and the member name.
\<close>

lemma split_dotted_path:
  assumes "CHR ''.'' \<notin> set moduleName"
  shows "takeWhile (\<lambda>c. c \<noteq> CHR ''.'') (moduleName @ ''.'' @ name) = moduleName"
    and "drop 1 (dropWhile (\<lambda>c. c \<noteq> CHR ''.'') (moduleName @ ''.'' @ name)) = name"
proof -
  have p: "\<And>x. x \<in> set moduleName \<Longrightarrow> x \<noteq> CHR ''.''" using assms by auto
  show "takeWhile (\<lambda>c. c \<noteq> CHR ''.'') (moduleName @ ''.'' @ name) = moduleName"
    using p by (simp add: takeWhile_append2)
  show "drop 1 (dropWhile (\<lambda>c. c \<noteq> CHR ''.'') (moduleName @ ''.'' @ name)) = name"
    using p by (simp add: dropWhile_append2)
qed

text \<open>The lookups of the code find the rules that the tables declare.\<close>

lemma getCustomFallback_rule:
  "getCustomFallback mgr (moduleName @ ''.'' @ name) config =
     (case per_call_rule config of
        Some r \<Rightarrow> r
      | None \<Rightarrow> (case custom_table_rule mgr moduleName name of Some r \<Rightarrow> r | None \<Rightarrow> JNull))"
  using dotted_path_not_inherited [of moduleName name]
  by (simp add: getCustomFallback_def js_or_def per_call_rule_def custom_table_rule_def
        truthy_entry_def field_own_property config_fields_not_inherited own_or_inherited_def
        split: option.splits)

lemma getBuiltInFallback_rule:
  assumes "CHR ''.'' \<notin> set moduleName"
    and "moduleName \<notin> set Object_prototype_keys" and "name \<notin> set Object_prototype_keys"
  shows "getBuiltInFallback mgr (moduleName @ ''.'' @ name) =
           (case builtIn_table_rule mgr moduleName name of Some r \<Rightarrow> r | None \<Rightarrow> JNull)"
  unfolding getBuiltInFallback_def Let_def split_dotted_path [OF assms(1)]
  using assms(2,3)
  by (simp add: builtIn_table_rule_def truthy_entry_def own_or_inherited_def
        split: option.splits)

lemma truthy_custom_rule:
  "truthy (getCustomFallback mgr (moduleName @ ''.'' @ name) config) =
     (per_call_rule config \<noteq> None \<or> custom_table_rule mgr moduleName name \<noteq> None)"
  unfolding getCustomFallback_rule
  by (auto dest: declared_rules_truthy split: option.splits)

lemma truthy_builtIn_rule:
  assumes "CHR ''.'' \<notin> set moduleName"
    and "moduleName \<notin> set Object_prototype_keys" and "name \<notin> set Object_prototype_keys"
  shows "truthy (getBuiltInFallback mgr (moduleName @ ''.'' @ name)) =
           (builtIn_table_rule mgr moduleName name \<noteq> None)"
  unfolding getBuiltInFallback_rule [OF assms]
  by (auto dest: declared_rules_truthy split: option.splits)



text \<open>
  The built-in table has entries under two dotted module names, for the enum-like
  sub-exports of the connectivity module. \<open>getBuiltInFallback\<close> splits the path at its first
  dot and never reads them.
\<close>

lemma dotted_builtIn_entry_is_not_found:
  "builtIn_table_rule default_manager ''@react-native-community/netinfo.NetInfoStateType''
     ''wifi'' = Some (JStr ''wifi'')
   \<and> getBuiltInFallback default_manager
       ''@react-native-community/netinfo.NetInfoStateType.wifi'' = JNull"
  by (simp add: builtIn_table_rule_def truthy_entry_def getBuiltInFallback_def
        default_manager_def initializeBuiltInFallbacks_def own_or_inherited_def
        Object_prototype_keys_def)

section \<open>Properties of method interception\<close>



text \<open>
  A rule whose value is falsy is passed over: a custom rule that declares \<open>false\<close> for a
  failing method yields the generic default \<open>null\<close>.
\<close>

lemma falsy_rule_is_skipped:
  "createMethodProxy module_funs falsy_rule_manager (JFun 0) (StrKey ''isAvailable'')
     ''expo-battery'' (JObject []) [] = Inr JNull"
  by (simp add: falsy_rule_manager_def default_manager_def initializeBuiltInFallbacks_def
        module_funs_def call_function_def createMethodProxy_def on_failure_def
        message_unreadable_def handleMethodError_def getCustomFallback_def js_or_def
        own_or_inherited_def Object_prototype_keys_def getBuiltInFallback_def
        executeDefaultFallback_def)

text \<open>
  The log line of the \<open>catch\<close> block and of the rejection handler reads \<open>error.message\<close>
  before the fallback manager is asked, so a method that throws \<open>null\<close>, or whose promise
  rejects with \<open>undefined\<close>, makes the wrapper throw or reject with a \<open>TypeError\<close>, whatever the
  policy declares. A method read under a symbol throws when it is called, before it does
  anything, because the dotted path is built from the symbol. The theorem below leaves these
  cases out.
\<close>

lemma null_failure_escapes_as_TypeError:
  "call_function funs originalMethod args = Inl JNull \<Longrightarrow>
   createMethodProxy funs mgr originalMethod (StrKey name) moduleName config args
     = Inl (JErr (TypeError ''Cannot read properties of null (reading 'message')''))"
  "call_function funs originalMethod args = Inr (JPromise (Inl JUndefined)) \<Longrightarrow>
   createMethodProxy funs mgr originalMethod (StrKey name) moduleName config args
     = Inr (JPromise (Inl (JErr
         (TypeError ''Cannot read properties of undefined (reading 'message')''))))"
  by (simp_all add: createMethodProxy_def on_failure_def message_unreadable_def
        promise_catch_def adopt_def)

lemma symbol_named_method_throws:
  "createMethodProxy funs mgr originalMethod (SymKey d) moduleName config args
     = Inl (JErr (TypeError ''Cannot convert a Symbol value to a string''))"
  by (simp add: createMethodProxy_def)




section \<open>Properties of property reads and membership\<close>

lemma createProxyWrapper_context:
  "createProxyWrapper w (ReactContextProxy p m) n c
     = Inr (ProxyWrapper w (ReactContextProxy p m) n c)"
  by (simp add: createProxyWrapper_def)

lemma smart_fallback_returns:
  "smart_fallback moduleName p cfg = None
   \<or> (\<exists>v. smart_fallback moduleName p cfg = Some (Inr v))"
  by (simp add: smart_fallback_def createProxyWrapper_context)

lemma wrap_missing_str: "\<exists>v. wrap_missing w mgr (StrKey p) moduleName config = Inr v"
proof (cases w)
  case RuntimeResolverSrc
  then show ?thesis by (simp add: wrap_missing_def)
next
  case DemoAppSrc
  with smart_fallback_returns [of moduleName p "js_or (field config p) (JObject [])"]
  show ?thesis by (auto simp: wrap_missing_def)
qed

text \<open>
  A read of a missing property whose key is a string never throws, whatever the shape of
  the name, through the wrapper of either file.
\<close>

lemma string_named_read_never_throws:
  assumes "lv_has mgr obj (StrKey p) = Inr False"
  shows "\<exists>v. lv_get mgr (ProxyWrapper w obj moduleName config) (StrKey p) = Inr v"
  using assms wrap_missing_str [of w mgr p moduleName config] by simp

text \<open>A read of a missing property whose key is a symbol always throws.\<close>

lemma symbol_keyed_read_throws:
  assumes "lv_has mgr obj (SymKey d) = Inr False"
  shows "lv_get mgr (ProxyWrapper w obj moduleName config) (SymKey d)
           = Inl (TypeError ''Cannot convert a Symbol value to a string'')"
  using assms by (simp add: wrap_missing_def)

text \<open>
  \<^bold>\<open>C4.\<close> A read, through the wrapper, of a property that the target lacks is never to
  throw. The \<open>get\<close> trap of \<open>createProxyWrapper\<close> builds its log message from the key before
  anything else, which throws a \<open>TypeError\<close> when the key is a symbol: converting a wrapped
  module to a primitive reads \<open>Symbol.toPrimitive\<close>, which the module lacks, and the read
  throws, in both files. The \<open>get\<close> trap of \<open>createSafePropertyProxy\<close> answers that very key
  without throwing. (For string keys the claim holds: lemma
  \<open>string_named_read_never_throws\<close>.)
\<close>

theorem C4_symbol_keyed_read_throws:
  "lv_has default_manager (Plain (JObject [])) (SymKey ''Symbol.toPrimitive'') = Inr False
   \<and> lv_get default_manager (empty_module_wrapper DemoAppSrc) (SymKey ''Symbol.toPrimitive'')
       = Inl (TypeError ''Cannot convert a Symbol value to a string'')
   \<and> lv_get default_manager (empty_module_wrapper RuntimeResolverSrc)
         (SymKey ''Symbol.toPrimitive'')
       = Inl (TypeError ''Cannot convert a Symbol value to a string'')
   \<and> createSafePropertyProxy_get ''react-native-safe-area-context'' ''foo''
         (SymKey ''Symbol.toPrimitive'')
       = Inr (ConstFunction JNull)"
  by (simp add: empty_module_wrapper_def wrap_missing_def createSafePropertyProxy_get_def)

text \<open>
  The membership test of a wrapper around a plain object, for a string name that the object
  lacks, a module name without a dot and not inherited from \<open>Object.prototype\<close>: it answers
  whether the custom table or the built-in table declares a rule. The per-call fallback of
  the wrapper's configuration is not looked at.
\<close>

lemma absent_name_not_inherited:
  "\<not> has_property (JObject ps) p \<Longrightarrow> p \<notin> set Object_prototype_keys"
  by (auto split: option.splits)

lemma membership_of_absent_name:
  assumes "\<not> has_property (JObject ps) p"
    and "CHR ''.'' \<notin> set moduleName" and "moduleName \<notin> set Object_prototype_keys"
  shows "lv_has mgr (ProxyWrapper w (Plain (JObject ps)) moduleName config) (StrKey p)
           = Inr (custom_table_rule mgr moduleName p \<noteq> None
                  \<or> builtIn_table_rule mgr moduleName p \<noteq> None)"
proof -
  have n: "p \<notin> set Object_prototype_keys" using assms(1) by (rule absent_name_not_inherited)
  have e: "per_call_rule (JObject []) = None"
    by (simp add: per_call_rule_def own_property_def truthy_entry_def)
  have "lv_has mgr (Plain (JObject ps)) (StrKey p) = Inr False" using assms(1) by simp
  moreover have "hasFallback mgr moduleName (StrKey p)
                   = Inr (custom_table_rule mgr moduleName p \<noteq> None
                          \<or> builtIn_table_rule mgr moduleName p \<noteq> None)"
    unfolding hasFallback_def template.simps sum.case Let_def truthy_custom_rule
      truthy_builtIn_rule [OF assms(2,3) n]
    by (simp add: e)
  ultimately show ?thesis by simp
qed

text \<open>
  The read of the same name through the wrapper of \<open>runtime-resolver/src\<close>, whose
  configuration is not \<open>null\<close>: the value of the rule that applies, the per-call fallback
  first, and without a rule the default by naming convention.
\<close>

lemma read_of_absent_name:
  assumes "\<not> has_property (JObject ps) p"
    and "CHR ''.'' \<notin> set moduleName" and "moduleName \<notin> set Object_prototype_keys"
    and "config \<noteq> JNull"
  shows "lv_get mgr (ProxyWrapper RuntimeResolverSrc (Plain (JObject ps)) moduleName config)
             (StrKey p)
           = Inr (case declared_rule mgr moduleName p config of
                    Some r \<Rightarrow> Plain (rule_value r)
                  | None \<Rightarrow> convention_default mgr moduleName p config)"
proof -
  have n: "p \<notin> set Object_prototype_keys" using assms(1) by (rule absent_name_not_inherited)
  have h: "lv_has mgr (Plain (JObject ps)) (StrKey p) = Inr False" using assms(1) by simp
  have rv: "js_or (field config ''returnValue'') (returnValue mgr)
              = (case truthy_entry (own_property config ''returnValue'') of
                   Some v \<Rightarrow> v | None \<Rightarrow> returnValue mgr)"
    by (simp add: js_or_def field_own_property config_fields_not_inherited truthy_entry_def
          split: option.splits)
  have g: "getFallbackValue mgr moduleName p config
             = (case declared_rule mgr moduleName p config of
                  Some r \<Rightarrow> Plain (rule_value r)
                | None \<Rightarrow> convention_default mgr moduleName p config)"
    unfolding getFallbackValue_def Let_def getCustomFallback_rule
      getBuiltInFallback_rule [OF assms(2,3) n] rv
    by (auto simp: declared_rule_def convention_default_def
          dest: declared_rules_truthy split: option.splits)
  show ?thesis using h by (simp add: wrap_missing_def g)
qed

text \<open>
  \<^bold>\<open>C10.\<close> For a property name that a wrapped target lacks, the membership test and the
  read are to disagree exactly on the defaults derived from naming convention: membership is
  false and the read yields such a default when no per-call or custom rule and no built-in
  entry exists, and nowhere else. The \<open>has\<close> trap asks \<open>hasFallback(moduleName, prop)\<close>, which
  cannot see the configuration of the wrapper, while the \<open>get\<close> trap passes that
  configuration to \<open>getFallbackValue\<close>. So with a per-call fallback in the module
  configuration, here written as the README shows it, \<open>getBatteryLevel\<close> is reported as not
  in the wrapped \<open>expo-battery\<close> module although a rule exists for it, and the read yields
  the value of that rule, not a default by naming convention. Without the per-call fallback
  the two traps behave as the claim says: membership is false and the read yields the no-op
  method that the naming convention gives. (For a key that is a symbol the membership test
  throws, as the read does.)
\<close>

theorem C10_membership_ignores_per_call_rule:
  "has_property (JObject []) ''getBatteryLevel'' = False
   \<and> custom_table_rule default_manager ''expo-battery'' ''getBatteryLevel'' = None
   \<and> builtIn_table_rule default_manager ''expo-battery'' ''getBatteryLevel'' = None
   \<and> per_call_rule fallback_config = Some (JObject [(''getBatteryLevel'', JFun 3)])
   \<and> lv_has default_manager (battery_wrapper fallback_config) (StrKey ''getBatteryLevel'')
       = Inr False
   \<and> lv_get default_manager (battery_wrapper fallback_config) (StrKey ''getBatteryLevel'')
       = Inr (Plain (JObject [(''getBatteryLevel'', JFun 3)]))
   \<and> per_call_rule (JObject []) = None
   \<and> lv_has default_manager (battery_wrapper (JObject [])) (StrKey ''getBatteryLevel'')
       = Inr False
   \<and> lv_get default_manager (battery_wrapper (JObject [])) (StrKey ''getBatteryLevel'')
       = Inr (FallbackMethod ''expo-battery.getBatteryLevel'' JNull)
   \<and> convention_default default_manager ''expo-battery'' ''getBatteryLevel'' fallback_config
       = FallbackMethod ''expo-battery.getBatteryLevel'' JNull
   \<and> lv_has default_manager (battery_wrapper (JObject [])) (SymKey ''Symbol.iterator'')
       = Inl (TypeError ''Cannot convert a Symbol value to a string'')"
  by code_simp

section \<open>Properties of the synthesized context stand-ins\<close>

text \<open>
  The \<open>Consumer\<close> written in \<open>createReactContextProxy\<close> and in \<open>generateReactContextWrapper\<close>
  calls a function child once, with the default value, and returns its result.
\<close>

lemma Consumer_calls_child_once:
  assumes "field props ''children'' = JFun n"
  shows "Consumer_call funs dv props = ([(JFun n, [dv])], funs (JFun n) [dv])"
proof -
  from assms have "props \<noteq> JNull" by auto
  with assms show ?thesis by (simp add: Consumer_call_def call_function_def Let_def)
qed

lemma generated_Consumer_calls_child_once:
  "field props ''children'' = JFun n \<Longrightarrow>
   generateReactContextWrapper_Consumer funs exportInfo props
     = ([(JFun n, [contextDefaultValue exportInfo])],
        funs (JFun n) [contextDefaultValue exportInfo])"
  by (simp add: generateReactContextWrapper_Consumer_def Consumer_calls_child_once)

text \<open>
  Through the wrapper that the \<open>demo-app\<close> file puts around a context proxy, \<open>Consumer\<close>
  reads as a component stand-in, for every context and every configuration; and a component
  stand-in never calls a function it is handed.
\<close>

lemma wrapped_context_Consumer:
  "lv_get mgr (ProxyWrapper DemoAppSrc (ReactContextProxy p m) n c) (StrKey ''Consumer'')
     = Inr (ReactComponentProxy ''Consumer'' n)"
  by (simp add: Object_prototype_keys_def wrap_missing_def smart_fallback_def endsWith_def)

lemma component_stand_in_calls_nothing:
  "fst (createReactComponentProxy_call rt prop moduleName props) = []"
  by (cases rt) (simp_all add: createReactComponentProxy_call_def Let_def)

text \<open>
  \<^bold>\<open>C9.\<close> Invoking the \<open>Consumer\<close> of a synthesized context stand-in with a function child
  is to call the child once with the default value and return its result. The stand-in that
  the wrapper of the \<open>demo-app\<close> file synthesizes for a missing \<open>SafeAreaInsetsContext\<close> is the
  context proxy wrapped again by \<open>createProxyWrapper\<close>. The context proxy has no \<open>has\<close> trap,
  so the outer \<open>get\<close> trap finds no \<open>Consumer\<close> on it, treats the name as a missing
  component-shaped property and hands out a component stand-in. Called with a function child
  (in a browser with \<open>window.React\<close>), that stand-in calls nothing and returns a placeholder
  element that holds the child, whereas the \<open>Consumer\<close> function of the context proxy itself
  would have called the child once with the default value.
\<close>

theorem C9_wrapped_context_consumer_is_component:
  "lv_get default_manager (empty_module_wrapper DemoAppSrc) (StrKey ''SafeAreaInsetsContext'')
     = Inr context_wrapper
   \<and> lv_get default_manager context_wrapper (StrKey ''Consumer'')
     = Inr (ReactComponentProxy ''Consumer''
              ''react-native-safe-area-context.SafeAreaInsetsContext'')
   \<and> createReactComponentProxy_call WindowReact ''Consumer''
        ''react-native-safe-area-context.SafeAreaInsetsContext'' child_props
     = ([], Inr (JElement (JStr ''div'')
          (JObject [(''data-fallback'',
                     JStr ''react-native-safe-area-context.SafeAreaInsetsContext.Consumer''),
                    (''style'', JObject [(''display'', JStr ''contents'')])])
          (JFun 7)))
   \<and> ContextConsumer_call child_funs child_props
     = ([(JFun 7, [context_defaultValue])], Inr (JArray [context_defaultValue]))"
  by code_simp

section \<open>Properties of the runtime resolver\<close>

lemma isWeb_keeps:
  "moduleCache (snd (isWeb env st)) = moduleCache st"
  "objects (snd (isWeb env st)) = objects st"
  "modules (snd (isWeb env st)) = modules st"
  by (simp_all add: isWeb_def Let_def split: option.splits)

lemma resolve_cached:
  "moduleCache st moduleName = Some c \<Longrightarrow> resolve env st moduleName m = (Inr c, st)"
  by (simp add: resolve_def)

lemma resolve_caches:
  assumes "resolve env st moduleName m = (Inr r, st')"
  shows "moduleCache st' moduleName = Some r"
proof (cases "moduleCache st moduleName")
  case (Some c)
  with assms show ?thesis by (simp add: resolve_def)
next
  case None
  show ?thesis
  proof (cases "fst (isWeb env st)")
    case False
    with None assms show ?thesis
      by (auto simp: resolve_def Let_def split_def isWeb_keeps)
  next
    case True
    with None assms show ?thesis
      by (auto simp: resolve_def Let_def split_def isWeb_keeps split: sum.splits)
  qed
qed

text \<open>
  On the web, for a module name that the cache does not have, \<open>resolve\<close> creates one
  object, the proxy that \<open>createProxyWrapper\<close> builds around the module with the
  configuration of that module name, returns it and records it in the cache.
\<close>

lemma isWeb_keeps_objects:
  "proxyWrapperFile (snd (isWeb env st)) = proxyWrapperFile st"
  "nextObject (snd (isWeb env st)) = nextObject st"
  by (simp_all add: isWeb_def Let_def split: option.splits)

lemma isWeb_keeps_deref: "deref (snd (isWeb env st)) h = deref st h"
  by (cases h) (simp_all add: deref_def isWeb_keeps)

lemma resolve_on_the_web:
  assumes "moduleCache st moduleName = None" and "fst (isWeb env st)"
    and "createProxyWrapper (proxyWrapperFile st) (deref st m) moduleName
           (js_or (own_or_inherited (modules st) moduleName) (JObject [])) = Inr proxy"
  shows "fst (resolve env st moduleName m) = Inr (Object (nextObject st))
       \<and> objects (snd (resolve env st moduleName m)) = (objects st)(nextObject st \<mapsto> proxy)
       \<and> moduleCache (snd (resolve env st moduleName m))
           = (moduleCache st)(moduleName \<mapsto> Object (nextObject st))"
  using assms
  by (simp add: resolve_def Let_def split_def isWeb_keeps isWeb_keeps_objects
        isWeb_keeps_deref)

text \<open>A call of \<open>resolve\<close>, for any module name, keeps every entry the cache has.\<close>

lemma resolve_keeps_cache_entries:
  assumes "moduleCache st n = Some c"
  shows "moduleCache (snd (resolve env st moduleName m)) n = Some c"
proof (cases "moduleCache st moduleName")
  case (Some c')
  with assms show ?thesis by (simp add: resolve_def)
next
  case None
  with assms have "n \<noteq> moduleName" by auto
  with None assms show ?thesis
    by (simp add: resolve_def Let_def split_def isWeb_keeps split: sum.splits)
qed

text \<open>
  \<^bold>\<open>C6.\<close> When a call of \<open>resolve\<close> for a module name returns an object, the next call for
  the same name on the same resolver, whatever module it is handed, returns the identical
  object and leaves the resolver as it was: no object is created and the cache is not
  written.
\<close>

theorem C6_second_resolve_returns_cached_object:
  assumes "resolve env st moduleName m1 = (Inr r, st')"
  shows "resolve env st' moduleName m2 = (Inr r, st')"
  using resolve_caches [OF assms] by (rule resolve_cached)

lemma web_first_resolve:
  "fst (resolve web_environment fresh_resolver ''expo-camera'' (Object 1)) = Inr (Object 3)"
  by (simp add: resolve_def isWeb_def detectPlatform_def web_environment_def
        fresh_resolver_def Let_def deref_def createProxyWrapper_def js_or_def)

theorem C6_second_resolve_returns_cached_object_witness:
  "resolve web_environment fresh_resolver ''expo-camera'' (Object 1)
     = (Inr (Object 3), web_after_first)
   \<and> resolve web_environment web_after_first ''expo-camera'' (Object 2)
     = (Inr (Object 3), web_after_first)"
proof -
  have h: "resolve web_environment fresh_resolver ''expo-camera'' (Object 1)
             = (Inr (Object 3), web_after_first)"
    using web_first_resolve by (simp add: web_after_first_def prod_eq_iff)
  from C6_second_resolve_returns_cached_object [OF h] h show ?thesis by simp
qed

text \<open>
  \<^bold>\<open>C7\<close>, as stated, fails on the code: \<open>resolve\<close> consults its cache before the platform.
  On an iOS device, after object 1 was resolved under a module name, resolving object 2
  under the same name returns object 1, not the module handed in.
\<close>

theorem C7_cached_name_counterexample:
  "fst (isWeb native_environment native_after_first) = False
   \<and> fst (resolve native_environment native_after_first ''expo-camera'' (Object 2))
       = Inr (Object 1)"
  by (simp add: native_after_first_def resolve_def isWeb_def detectPlatform_def
        native_environment_def fresh_resolver_def Let_def)

text \<open>
  \<^bold>\<open>C7\<close>, amended. When the detector reports a target that is not the web and the module
  name has no entry in the resolver's cache, \<open>resolve\<close> returns the module it was handed, the
  same reference; it creates no object, and it records the module under the name in the
  cache.
\<close>

theorem C7_native_target_returns_original:
  assumes "moduleCache st moduleName = None" and "\<not> fst (isWeb env st)"
  shows "fst (resolve env st moduleName m) = Inr m
       \<and> objects (snd (resolve env st moduleName m)) = objects st
       \<and> moduleCache (snd (resolve env st moduleName m)) = (moduleCache st)(moduleName \<mapsto> m)"
  using assms
  by (simp add: resolve_def Let_def split_def isWeb_keeps)

theorem C7_native_target_returns_original_witness:
  "moduleCache fresh_resolver ''expo-camera'' = None
   \<and> \<not> fst (isWeb native_environment fresh_resolver)
   \<and> fst (resolve native_environment fresh_resolver ''expo-camera'' (Object 1)) = Inr (Object 1)
   \<and> objects (snd (resolve native_environment fresh_resolver ''expo-camera'' (Object 1)))
       = objects fresh_resolver"
proof -
  have a: "moduleCache fresh_resolver ''expo-camera'' = None"
    by (simp add: fresh_resolver_def)
  have b: "\<not> fst (isWeb native_environment fresh_resolver)"
    by (simp add: isWeb_def detectPlatform_def native_environment_def fresh_resolver_def
          Let_def)
  from C7_native_target_returns_original [OF a b, of "Object 1"] a b show ?thesis by simp
qed

end
